theory Spec2Isabelle
  imports Main "HOL-Library.Sublist"
begin

section \<open>Strings: Python's substring test\<close>

text \<open>
  \<^verbatim>\<open>s in t\<close> on two Python strings holds when \<open>s\<close> occurs in \<open>t\<close> as a contiguous
  block. The test is written as a scan over the start positions of \<open>t\<close>.
\<close>

primrec py_in :: "string \<Rightarrow> string \<Rightarrow> bool" where
  "py_in s [] = (s = [])"
| "py_in s (c # cs) = (prefix s (c # cs) \<or> py_in s cs)"

text \<open>The four labels a result or a prediction is drawn from.\<close>

definition prediction_types :: "string list" where
  "prediction_types = [''RED'', ''GREEN'', ''BIG'', ''SMALL'']"

text \<open>
  The win test of \<^verbatim>\<open>update_predictions\<close> (database.py):
  \<^verbatim>\<open>is_win = prediction in actual_result or actual_result in prediction\<close>.
\<close>

definition is_win :: "string \<Rightarrow> string \<Rightarrow> bool" where
  "is_win prediction actual_result =
     (py_in prediction actual_result \<or> py_in actual_result prediction)"

section \<open>The registry of active messages (utils.py)\<close>

text \<open>
  Errors the Python raises become values: a dictionary read at a missing key is
  \<^verbatim>\<open>KeyError\<close>.
\<close>

datatype py_error = KeyError | IndexError

text \<open>
  \<^verbatim>\<open>active_messages: Dict[str, List[Tuple[int, int]]]\<close>: a (chat id, message id) handle
  list per duration. The module starts with the two keys \<^verbatim>\<open>"30 SEC"\<close> and
  \<^verbatim>\<open>"1 MIN"\<close>, each with an empty list.
\<close>

type_synonym handle = "int \<times> int"
type_synonym registry = "string \<rightharpoonup> handle list"

definition active_messages_init :: registry where
  "active_messages_init = [''30 SEC'' \<mapsto> [], ''1 MIN'' \<mapsto> []]"

text \<open>\<^verbatim>\<open>active_messages[duration].append((chat_id, message_id))\<close>\<close>

definition register_active_message ::
  "string \<Rightarrow> int \<Rightarrow> int \<Rightarrow> registry \<Rightarrow> py_error + registry" where
  "register_active_message duration chat_id message_id active_messages =
     (case active_messages duration of
        None \<Rightarrow> Inl KeyError
      | Some xs \<Rightarrow> Inr (active_messages(duration \<mapsto> xs @ [(chat_id, message_id)])))"

text \<open>
  \<^verbatim>\<open>if (chat_id, message_id) in active_messages[duration]:
      active_messages[duration].remove((chat_id, message_id))\<close>;
  \<^verbatim>\<open>list.remove\<close> deletes the first equal element.
\<close>

definition unregister_active_message ::
  "string \<Rightarrow> int \<Rightarrow> int \<Rightarrow> registry \<Rightarrow> py_error + registry" where
  "unregister_active_message duration chat_id message_id active_messages =
     (case active_messages duration of
        None \<Rightarrow> Inl KeyError
      | Some xs \<Rightarrow>
          Inr (if (chat_id, message_id) \<in> set xs
               then active_messages(duration \<mapsto> remove1 (chat_id, message_id) xs)
               else active_messages))"

definition get_active_messages :: "string \<Rightarrow> registry \<Rightarrow> py_error + handle list" where
  "get_active_messages duration active_messages =
     (case active_messages duration of None \<Rightarrow> Inl KeyError | Some xs \<Rightarrow> Inr xs)"

text \<open>
  Python's slice \<^verbatim>\<open>xs[i:]\<close>: a negative start counts from the end and is clipped at
  the front, a start beyond the end is clipped at the end.
\<close>

definition py_slice_from :: "int \<Rightarrow> 'a list \<Rightarrow> 'a list" where
  "py_slice_from i xs =
     (let n = int (length xs);
          start = (if i < 0 then max (n + i) 0 else min i n)
      in drop (nat start) xs)"

definition max_messages :: nat where
  "max_messages = 20"

text \<open>
  \<^verbatim>\<open>for duration in active_messages:
      if len(active_messages[duration]) > max_messages:
          active_messages[duration] = active_messages[duration][-max_messages:]\<close>
\<close>

definition clear_old_messages :: "registry \<Rightarrow> registry" where
  "clear_old_messages active_messages =
     (\<lambda>duration.
        case active_messages duration of
          None \<Rightarrow> None
        | Some xs \<Rightarrow>
            Some (if length xs > max_messages
                  then py_slice_from (- int max_messages) xs
                  else xs))"

section \<open>The local store (database.py)\<close>

text \<open>
  The two tables of the SQLite file, each a list of rows in insertion order, with the
  counter SQLite keeps for an \<^verbatim>\<open>AUTOINCREMENT\<close> key. \<^verbatim>\<open>result\<close> and \<^verbatim>\<open>is_win\<close> of a
  prediction are nullable (\<^verbatim>\<open>DEFAULT NULL\<close>); Python's integers and SQLite's
  \<^verbatim>\<open>INTEGER\<close> are modelled as \<open>int\<close>, so period identifiers are taken to stay inside
  SQLite's 64-bit range, and the file is taken to be readable and writable.
\<close>

record result_row =
  r_id :: int
  r_period_id :: int
  r_duration :: string
  r_result :: string
  r_color :: string
  r_size :: string
  r_timestamp :: string

record prediction_row =
  p_id :: int
  p_period_id :: int
  p_duration :: string
  p_prediction :: string
  p_result :: "string option"
  p_is_win :: "bool option"
  p_timestamp :: string

record database =
  wingo_results :: "result_row list"
  wingo_results_seq :: int
  wingo_predictions :: "prediction_row list"
  wingo_predictions_seq :: int

text \<open>
  The key of a row inserted without one into an \<^verbatim>\<open>INTEGER PRIMARY KEY AUTOINCREMENT\<close>
  column: one more than the largest key the table has ever held.
\<close>

definition next_rowid :: "int \<Rightarrow> int list \<Rightarrow> int" where
  "next_rowid seq ids = max seq (fold max ids 0) + 1"

text \<open>\<^verbatim>\<open>LIMIT ?\<close>: a negative limit is no limit.\<close>

definition sql_limit :: "int \<Rightarrow> 'a list \<Rightarrow> 'a list" where
  "sql_limit n xs = (if n < 0 then xs else take (nat n) xs)"

text \<open>
  \<^verbatim>\<open>SELECT * FROM wingo_results WHERE duration = ? ORDER BY period_id DESC LIMIT ?\<close>.
  SQL leaves the order of rows with equal \<^verbatim>\<open>period_id\<close> open; the model keeps them in
  insertion order.
\<close>

definition get_latest_results :: "string \<Rightarrow> int \<Rightarrow> database \<Rightarrow> result_row list" where
  "get_latest_results duration limit db =
     sql_limit limit
       (sort_key (\<lambda>r. - r_period_id r)
          (filter (\<lambda>r. r_duration r = duration) (wingo_results db)))"

text \<open>
  \<^verbatim>\<open>SELECT MAX(period_id) FROM wingo_results WHERE duration = ?\<close>: \<^verbatim>\<open>NULL\<close> (Python's
  \<^verbatim>\<open>None\<close>) when no row matches.
\<close>

definition select_max_period_id :: "string \<Rightarrow> database \<Rightarrow> int option" where
  "select_max_period_id duration db =
     (case map r_period_id (filter (\<lambda>r. r_duration r = duration) (wingo_results db)) of
        [] \<Rightarrow> None
      | p # ps \<Rightarrow> Some (fold max ps p))"

text \<open>
  Python's \<^verbatim>\<open>x or d\<close> on an optional integer: \<open>d\<close> when \<open>x\<close> is \<^verbatim>\<open>None\<close> or \<open>0\<close> (both
  are falsy), \<open>x\<close> otherwise.
\<close>

definition py_or :: "int option \<Rightarrow> int \<Rightarrow> int" where
  "py_or x d = (case x of None \<Rightarrow> d | Some v \<Rightarrow> if v = 0 then d else v)"

text \<open>\<^verbatim>\<open>return (result[0] or 789) + 1  # If no results, start from 790\<close>\<close>

definition get_next_period_id :: "string \<Rightarrow> database \<Rightarrow> int" where
  "get_next_period_id duration db = py_or (select_max_period_id duration db) 789 + 1"

text \<open>
  \<^verbatim>\<open>update_predictions\<close>: the rows selected by
  \<^verbatim>\<open>WHERE period_id = ? AND duration = ? AND result IS NULL\<close> are fetched first; then,
  for each fetched \<^verbatim>\<open>(pred_id, prediction)\<close>,
  \<^verbatim>\<open>UPDATE wingo_predictions SET result = ?, is_win = ? WHERE id = ?\<close>.
\<close>

definition select_open_predictions ::
  "int \<Rightarrow> string \<Rightarrow> prediction_row list \<Rightarrow> (int \<times> string) list" where
  "select_open_predictions period_id duration rows =
     map (\<lambda>r. (p_id r, p_prediction r))
       (filter (\<lambda>r. p_period_id r = period_id \<and> p_duration r = duration \<and> p_result r = None)
          rows)"

definition set_result_where_id ::
  "string \<Rightarrow> bool \<Rightarrow> int \<Rightarrow> prediction_row list \<Rightarrow> prediction_row list" where
  "set_result_where_id actual_result win pred_id rows =
     map (\<lambda>r. if p_id r = pred_id
               then r\<lparr>p_result := Some actual_result, p_is_win := Some win\<rparr>
               else r) rows"

definition update_predictions :: "int \<Rightarrow> string \<Rightarrow> string \<Rightarrow> database \<Rightarrow> database" where
  "update_predictions period_id duration actual_result db =
     db\<lparr>wingo_predictions :=
          fold (\<lambda>(pred_id, prediction).
                  set_result_where_id actual_result (is_win prediction actual_result) pred_id)
            (select_open_predictions period_id duration (wingo_predictions db))
            (wingo_predictions db)\<rparr>"

text \<open>
  \<^verbatim>\<open>add_new_result\<close>: the period identifier comes from \<^verbatim>\<open>get_next_period_id\<close>, the
  row is inserted, and the predictions of that period are settled. \<open>now\<close> is the clock
  reading \<^verbatim>\<open>datetime.now().strftime(...)\<close>. The function returns the period identifier;
  the model returns it with the new store.
\<close>

definition add_new_result ::
  "string \<Rightarrow> string \<Rightarrow> string \<Rightarrow> string \<Rightarrow> string \<Rightarrow> database \<Rightarrow> int \<times> database" where
  "add_new_result now duration result color size' db =
     (let period_id = get_next_period_id duration db;
          new_id = next_rowid (wingo_results_seq db) (map r_id (wingo_results db));
          db1 = db\<lparr>wingo_results := wingo_results db @
                     [\<lparr>r_id = new_id, r_period_id = period_id, r_duration = duration,
                       r_result = result, r_color = color, r_size = size',
                       r_timestamp = now\<rparr>],
                   wingo_results_seq := new_id\<rparr>
      in (period_id, update_predictions period_id duration result db1))"

text \<open>
  \<^verbatim>\<open>save_prediction\<close>: \<^verbatim>\<open>SELECT id ... WHERE period_id = ? AND duration = ?\<close> and
  \<^verbatim>\<open>fetchone()\<close>; when a row comes back,
  \<^verbatim>\<open>UPDATE ... SET prediction = ?, timestamp = ? WHERE period_id = ? AND duration = ?\<close>
  and the fetched id is returned; otherwise a row is inserted (\<^verbatim>\<open>result\<close> and
  \<^verbatim>\<open>is_win\<close> left \<^verbatim>\<open>NULL\<close>) and \<^verbatim>\<open>cursor.lastrowid\<close> is returned. Both ids are
  integers, so the final \<^verbatim>\<open>else 0\<close> of the source is never taken.
\<close>

definition same_period :: "int \<Rightarrow> string \<Rightarrow> prediction_row \<Rightarrow> bool" where
  "same_period period_id duration r \<longleftrightarrow> p_period_id r = period_id \<and> p_duration r = duration"

definition save_prediction ::
  "string \<Rightarrow> int \<Rightarrow> string \<Rightarrow> string \<Rightarrow> database \<Rightarrow> int \<times> database" where
  "save_prediction now period_id duration prediction db =
     (case find (same_period period_id duration) (wingo_predictions db) of
        Some existing \<Rightarrow>
          (p_id existing,
           db\<lparr>wingo_predictions :=
                map (\<lambda>r. if same_period period_id duration r
                          then r\<lparr>p_prediction := prediction, p_timestamp := now\<rparr>
                          else r)
                  (wingo_predictions db)\<rparr>)
      | None \<Rightarrow>
          (let new_id = next_rowid (wingo_predictions_seq db)
                          (map p_id (wingo_predictions db))
           in (new_id,
               db\<lparr>wingo_predictions := wingo_predictions db @
                      [\<lparr>p_id = new_id, p_period_id = period_id, p_duration = duration,
                        p_prediction = prediction, p_result = None, p_is_win = None,
                        p_timestamp = now\<rparr>],
                    wingo_predictions_seq := new_id\<rparr>)))"

text \<open>
  \<^verbatim>\<open>SELECT * FROM wingo_predictions WHERE duration = ? ORDER BY period_id DESC LIMIT ?\<close>
\<close>

definition get_predictions :: "string \<Rightarrow> int \<Rightarrow> database \<Rightarrow> prediction_row list" where
  "get_predictions duration limit db =
     sql_limit limit
       (sort_key (\<lambda>r. - p_period_id r)
          (filter (\<lambda>r. p_duration r = duration) (wingo_predictions db)))"

text \<open>
  The open predictions of a table, by (period identifier, duration): the rows whose
  result is still \<^verbatim>\<open>NULL\<close>. "At most one open prediction per (period, category)" is
  that this list has no repetition.
\<close>

definition prediction_key :: "prediction_row \<Rightarrow> int \<times> string" where
  "prediction_key r = (p_period_id r, p_duration r)"

definition open_keys :: "prediction_row list \<Rightarrow> (int \<times> string) list" where
  "open_keys rows = map prediction_key (filter (\<lambda>r. p_result r = None) rows)"

text \<open>
  \<^verbatim>\<open>seed_database\<close>, run by \<^verbatim>\<open>init_database\<close> on the two tables it has just created:
  the curated outcomes, then one settled prediction for each. \<open>clock\<close> is the reading
  of \<^verbatim>\<open>datetime.now()\<close> at each insert, \<open>wins i\<close> the outcome of
  \<^verbatim>\<open>random.random() < 0.7\<close> for the pattern at index \<open>i\<close>.
\<close>

definition seed_patterns :: "(int \<times> string \<times> string \<times> string \<times> string) list" where
  "seed_patterns =
     [(801, ''30 SEC'', ''RED'', ''RED'', ''BIG''),
      (802, ''30 SEC'', ''GREEN'', ''GREEN'', ''SMALL''),
      (803, ''30 SEC'', ''RED'', ''RED'', ''SMALL''),
      (804, ''30 SEC'', ''BIG'', ''GREEN'', ''BIG''),
      (805, ''30 SEC'', ''GREEN'', ''GREEN'', ''BIG''),
      (806, ''30 SEC'', ''RED'', ''RED'', ''SMALL''),
      (807, ''30 SEC'', ''SMALL'', ''RED'', ''SMALL''),
      (808, ''30 SEC'', ''GREEN'', ''GREEN'', ''BIG''),
      (809, ''30 SEC'', ''SMALL'', ''GREEN'', ''SMALL''),
      (810, ''30 SEC'', ''RED'', ''RED'', ''BIG''),
      (811, ''30 SEC'', ''RED'', ''RED'', ''SMALL''),
      (812, ''30 SEC'', ''GREEN'', ''GREEN'', ''BIG''),
      (801, ''1 MIN'', ''BIG'', ''GREEN'', ''BIG''),
      (802, ''1 MIN'', ''RED'', ''RED'', ''SMALL''),
      (803, ''1 MIN'', ''GREEN'', ''GREEN'', ''BIG''),
      (804, ''1 MIN'', ''SMALL'', ''GREEN'', ''SMALL''),
      (805, ''1 MIN'', ''BIG'', ''RED'', ''BIG''),
      (806, ''1 MIN'', ''SMALL'', ''RED'', ''SMALL''),
      (807, ''1 MIN'', ''BIG'', ''RED'', ''BIG''),
      (808, ''1 MIN'', ''BIG'', ''GREEN'', ''BIG''),
      (809, ''1 MIN'', ''BIG'', ''GREEN'', ''BIG''),
      (810, ''1 MIN'', ''GREEN'', ''GREEN'', ''SMALL'')]"

definition seed_prediction :: "bool \<Rightarrow> string \<Rightarrow> string" where
  "seed_prediction win result =
     (if win then result
      else if result = ''RED'' then ''GREEN''
      else if result = ''GREEN'' then ''RED''
      else if result = ''BIG'' then ''SMALL''
      else ''BIG'')"

definition seed_database :: "(nat \<Rightarrow> string) \<Rightarrow> (nat \<Rightarrow> bool) \<Rightarrow> database" where
  "seed_database clock wins =
     \<lparr>wingo_results =
        map (\<lambda>(i, (period_id, duration, result, color, size')).
               \<lparr>r_id = int i + 1, r_period_id = period_id, r_duration = duration,
                r_result = result, r_color = color, r_size = size',
                r_timestamp = clock i\<rparr>)
          (enumerate 0 seed_patterns),
      wingo_results_seq = int (length seed_patterns),
      wingo_predictions =
        map (\<lambda>(i, (period_id, duration, result, color, size')).
               \<lparr>p_id = int i + 1, p_period_id = period_id, p_duration = duration,
                p_prediction = seed_prediction (wins i) result,
                p_result = Some result,
                p_is_win = Some (seed_prediction (wins i) result = result),
                p_timestamp = clock (length seed_patterns + i)\<rparr>)
          (enumerate 0 seed_patterns),
      wingo_predictions_seq = int (length seed_patterns)\<rparr>"

text \<open>
  The stores the program produces: the seeded one, and what the three writers of
  \<^verbatim>\<open>database.py\<close> make of a store.
\<close>

inductive_set stores :: "database set" where
  seeded: "seed_database clock wins \<in> stores"
| result_added:
    "db \<in> stores \<Longrightarrow> snd (add_new_result now duration result color size' db) \<in> stores"
| prediction_saved:
    "db \<in> stores \<Longrightarrow> snd (save_prediction now period_id duration prediction db) \<in> stores"
| predictions_updated:
    "db \<in> stores \<Longrightarrow> update_predictions period_id duration actual_result db \<in> stores"

section \<open>The remote source (web_scraper.py)\<close>

text \<open>
  A parsed JSON body. Numbers with a fraction are left out: the scraper compares the
  fields it reads with the integers 1 and 2 only.
\<close>

datatype json =
  JNull | JBool bool | JInt int | JStr string | JList "json list" | JObj "(string \<times> json) list"

text \<open>Python's truth value of a parsed JSON value, as \<^verbatim>\<open>and\<close> tests it.\<close>

fun py_truthy :: "json \<Rightarrow> bool" where
  "py_truthy JNull = False"
| "py_truthy (JBool b) = b"
| "py_truthy (JInt n) = (n \<noteq> 0)"
| "py_truthy (JStr s) = (s \<noteq> [])"
| "py_truthy (JList xs) = (xs \<noteq> [])"
| "py_truthy (JObj kvs) = (kvs \<noteq> [])"

text \<open>
  \<^verbatim>\<open>v == k\<close> for an integer \<open>k\<close>: in Python \<^verbatim>\<open>True == 1\<close> and \<^verbatim>\<open>False == 0\<close>.
\<close>

fun py_eq_int :: "json \<Rightarrow> int \<Rightarrow> bool" where
  "py_eq_int (JInt n) k = (n = k)"
| "py_eq_int (JBool b) k = ((if b then 1 else 0) = k)"
| "py_eq_int _ k = False"

text \<open>\<^verbatim>\<open>d.get(key, default)\<close> on a dictionary held as an association list.\<close>

definition dict_get :: "(string \<times> json) list \<Rightarrow> string \<Rightarrow> json \<Rightarrow> json" where
  "dict_get kvs key dflt = (case map_of kvs key of None \<Rightarrow> dflt | Some v \<Rightarrow> v)"

text \<open>\<^verbatim>\<open>d[key] = v\<close>: an existing key keeps its place, a new key goes last.\<close>

fun dict_set :: "string \<Rightarrow> json \<Rightarrow> (string \<times> json) list \<Rightarrow> (string \<times> json) list" where
  "dict_set key v [] = [(key, v)]"
| "dict_set key v ((k, w) # kvs) =
     (if k = key then (k, v) # kvs else (k, w) # dict_set key v kvs)"

definition API_URL :: string where
  "API_URL = ''https://wapi.m2.app/api/game/recordsAsFast''"

definition DEFAULT_PARAMS :: "(string \<times> json) list" where
  "DEFAULT_PARAMS = [(''id'', JInt 3), (''count'', JInt 10), (''language'', JStr ''en'')]"

definition HEADERS :: "(string \<times> string) list" where
  "HEADERS =
     [(''User-Agent'', ''Mozilla/5.0 (Windows NT 10.0; Win64; x64) AppleWebKit/537.36 (KHTML, like Gecko) Chrome/91.0.4472.124 Safari/537.36''),
      (''Accept'', ''application/json''),
      (''Accept-Language'', ''en-US,en;q=0.9''),
      (''Referer'', ''https://47lottery.online/''),
      (''Origin'', ''https://47lottery.online'')]"

text \<open>The arguments of \<^verbatim>\<open>requests.get(API_URL, params=params, headers=HEADERS, timeout=10)\<close>.\<close>

record request =
  req_url :: string
  req_params :: "(string \<times> json) list"
  req_headers :: "(string \<times> string) list"
  req_timeout :: int

text \<open>
  \<^verbatim>\<open>params = DEFAULT_PARAMS.copy(); params["count"] = limit\<close>, then
  \<^verbatim>\<open>game_id = 3; if duration == "30SEC": game_id = 4\<close> and \<^verbatim>\<open>params["id"] = game_id\<close>.
\<close>

definition wingo_request :: "int \<Rightarrow> string \<Rightarrow> request" where
  "wingo_request limit duration =
     (let params = dict_set ''count'' (JInt limit) DEFAULT_PARAMS;
          game_id = (if duration = ''30SEC'' then 4 else 3);
          params = dict_set ''id'' (JInt game_id) params
      in \<lparr>req_url = API_URL, req_params = params, req_headers = HEADERS, req_timeout = 10\<rparr>)"

text \<open>
  What a GET can come to: \<^verbatim>\<open>requests.get\<close> raises (no connection, timeout), or a
  response arrives with a status code and a body, which \<^verbatim>\<open>response.json()\<close> parses
  (\<open>Some\<close>) or rejects by raising (\<open>None\<close>). The network is the list of outcomes of the
  GETs still to come, in order, and the log of the requests sent; a GET beyond the list
  raises. Every behaviour of the remote side is one such list.
\<close>

datatype http_result = Raised | Response int "json option"

record net =
  pending :: "http_result list"
  sent :: "request list"

definition next_response :: "net \<Rightarrow> http_result" where
  "next_response n = (case pending n of [] \<Rightarrow> Raised | r # _ \<Rightarrow> r)"

definition requests_get :: "request \<Rightarrow> net \<Rightarrow> http_result \<times> net" where
  "requests_get req n =
     (next_response n, n\<lparr>pending := tl (pending n), sent := sent n @ [req]\<rparr>)"

text \<open>One entry of the list \<^verbatim>\<open>get_wingo_results\<close> returns.\<close>

record web_result =
  w_period_id :: json
  w_result :: string
  w_color :: string
  w_size :: string
  w_timestamp :: string

text \<open>
  The body of the loop over \<^verbatim>\<open>data["data"]\<close>. \<open>None\<close> is an exception: \<^verbatim>\<open>record.get\<close>
  on a value that is not a dictionary, \<^verbatim>\<open>createdTime / 1000\<close> on a value that is not a
  number, or \<^verbatim>\<open>datetime.fromtimestamp(...).strftime(...)\<close> raising. \<open>fromtimestamp_ms\<close>
  is that last conversion, from the milliseconds to the text, with \<open>None\<close> where it
  raises.
\<close>

fun created_ms :: "json \<Rightarrow> int option" where
  "created_ms (JInt n) = Some n"
| "created_ms (JBool b) = Some (if b then 1 else 0)"
| "created_ms _ = None"

fun parse_record :: "(int \<Rightarrow> string option) \<Rightarrow> json \<Rightarrow> web_result option" where
  "parse_record fromtimestamp_ms (JObj record) =
     (let colorType = dict_get record ''colorType'' JNull;
          sizeType = dict_get record ''sizeType'' JNull;
          color = (if py_eq_int colorType 1 then ''RED''
                   else if py_eq_int colorType 2 then ''GREEN'' else []);
          result_text = (if py_eq_int sizeType 1 then ''BIG''
                         else if py_eq_int sizeType 2 then ''SMALL'' else color)
      in (case created_ms (dict_get record ''createdTime'' (JInt 0)) of
            None \<Rightarrow> None
          | Some ms \<Rightarrow>
              (case fromtimestamp_ms ms of
                 None \<Rightarrow> None
               | Some ts \<Rightarrow>
                   Some \<lparr>w_period_id = dict_get record ''issueNumber'' (JInt 0),
                         w_result = result_text,
                         w_color = color,
                         w_size = (if py_eq_int sizeType 1 then ''BIG''
                                   else if py_eq_int sizeType 2 then ''SMALL'' else []),
                         w_timestamp = ts\<rparr>)))"
| "parse_record fromtimestamp_ms _ = None"

fun parse_records :: "(int \<Rightarrow> string option) \<Rightarrow> json list \<Rightarrow> web_result list option" where
  "parse_records fromtimestamp_ms [] = Some []"
| "parse_records fromtimestamp_ms (record # records) =
     (case parse_record fromtimestamp_ms record of
        None \<Rightarrow> None
      | Some r \<Rightarrow> map_option ((#) r) (parse_records fromtimestamp_ms records))"

text \<open>
  What \<^verbatim>\<open>for record in v\<close> iterates over: the items of a list, the characters of a
  string, the keys of a dictionary; any other value is not iterable (\<open>None\<close>).
\<close>

fun py_iter :: "json \<Rightarrow> json list option" where
  "py_iter (JList xs) = Some xs"
| "py_iter (JStr s) = Some (map (\<lambda>c. JStr [c]) s)"
| "py_iter (JObj kvs) = Some (map (\<lambda>kv. JStr (fst kv)) kvs)"
| "py_iter _ = None"

text \<open>
  The body of the \<^verbatim>\<open>try\<close> of \<^verbatim>\<open>get_wingo_results\<close> after the GET: \<open>None\<close> when an
  exception is raised, \<open>Some\<close> of the returned list otherwise (the empty list after the
  error is logged for a status other than 200 or a body without a true \<^verbatim>\<open>success\<close> and
  a \<^verbatim>\<open>data\<close> key).
\<close>

fun wingo_try :: "(int \<Rightarrow> string option) \<Rightarrow> http_result \<Rightarrow> web_result list option" where
  "wingo_try fromtimestamp_ms Raised = None"
| "wingo_try fromtimestamp_ms (Response status_code body) =
     (if status_code = 200 then
        (case body of
           None \<Rightarrow> None
         | Some (JObj data) \<Rightarrow>
             (if py_truthy (dict_get data ''success'' JNull) \<and> map_of data ''data'' \<noteq> None
              then (case py_iter (dict_get data ''data'' JNull) of
                      None \<Rightarrow> None
                    | Some records \<Rightarrow> parse_records fromtimestamp_ms records)
              else Some [])
         | Some _ \<Rightarrow> None)
      else Some [])"

text \<open>
  \<^verbatim>\<open>get_wingo_results\<close>: one GET, then the \<^verbatim>\<open>try\<close> body; \<^verbatim>\<open>except Exception\<close> logs and
  returns the empty list.
\<close>

definition get_wingo_results ::
  "(int \<Rightarrow> string option) \<Rightarrow> int \<Rightarrow> string \<Rightarrow> net \<Rightarrow> web_result list \<times> net" where
  "get_wingo_results fromtimestamp_ms limit duration n =
     (case requests_get (wingo_request limit duration) n of
        (response, n') \<Rightarrow>
          (case wingo_try fromtimestamp_ms response of None \<Rightarrow> [] | Some results \<Rightarrow> results,
           n'))"

text \<open>\<^verbatim>\<open>duration.replace(" ", "")\<close>\<close>

definition norm_duration :: "string \<Rightarrow> string" where
  "norm_duration duration = filter (\<lambda>c. c \<noteq> CHR '' '') duration"

text \<open>
  \<^verbatim>\<open>int(latest_period)\<close>: an integer as it is, a boolean as 0 or 1, a string through
  Python's parser of integer literals (\<open>int_of_str\<close>, \<open>None\<close> for \<^verbatim>\<open>ValueError\<close>), and
  \<^verbatim>\<open>TypeError\<close> for the rest.
\<close>

fun py_int :: "(string \<rightharpoonup> int) \<Rightarrow> json \<Rightarrow> int option" where
  "py_int int_of_str (JInt n) = Some n"
| "py_int int_of_str (JBool b) = Some (if b then 1 else 0)"
| "py_int int_of_str (JStr s) = int_of_str s"
| "py_int int_of_str _ = None"

text \<open>
  \<^verbatim>\<open>web_scraper.get_next_period_id\<close>: a fetch of its own with \<^verbatim>\<open>limit=1\<close>; the latest
  period plus one, and 1000 when there is no result or the conversion raises.
\<close>

definition ws_get_next_period_id ::
  "(int \<Rightarrow> string option) \<Rightarrow> (string \<rightharpoonup> int) \<Rightarrow> string \<Rightarrow> net \<Rightarrow> int \<times> net" where
  "ws_get_next_period_id fromtimestamp_ms int_of_str duration n =
     (case get_wingo_results fromtimestamp_ms 1 (norm_duration duration) n of
        (results, n') \<Rightarrow>
          (case results of
             [] \<Rightarrow> (1000, n')
           | latest # _ \<Rightarrow>
               (case py_int int_of_str (w_period_id latest) of
                  None \<Rightarrow> (1000, n')
                | Some latest_period \<Rightarrow> (latest_period + 1, n'))))"

section \<open>The prediction shown to the users (fixed_prediction.py)\<close>

text \<open>
  The strategy written out three times in \<^verbatim>\<open>generate_formatted_predictions\<close>:
  \<^verbatim>\<open>
  if last_result in ["RED", "GREEN"]:
      next_prediction = "GREEN" if last_result == "RED" else "RED"
  else:
      next_prediction = "SMALL" if last_result == "BIG" else "BIG"
  \<close>
\<close>

definition alternate :: "string \<Rightarrow> string" where
  "alternate last_result =
     (if last_result \<in> set [''RED'', ''GREEN'']
      then (if last_result = ''RED'' then ''GREEN'' else ''RED'')
      else (if last_result = ''BIG'' then ''SMALL'' else ''BIG''))"

text \<open>\<^verbatim>\<open>random.choice(xs)\<close> on a non-empty list, with the draw \<open>k\<close> made explicit.\<close>

definition random_choice :: "nat \<Rightarrow> 'a list \<Rightarrow> 'a" where
  "random_choice k xs = xs ! (k mod length xs)"

text \<open>
  What \<^verbatim>\<open>generate_formatted_predictions\<close> computes before it renders the text: the
  next period, the prediction for it, the list \<^verbatim>\<open>results\<close> with its source, and the
  past predictions it lists (\<^verbatim>\<open>db.get_predictions(duration, 10)\<close>, read after the new
  prediction is saved). The rendering into lines of text, with the emoji picked by the
  clock's second, is not modelled.
\<close>

datatype results_from = FromWeb "web_result list" | FromStore "result_row list"

record view =
  v_next_period :: int
  v_next_prediction :: string
  v_results :: results_from
  v_past_predictions :: "prediction_row list"

text \<open>
  \<^verbatim>\<open>generate_formatted_predictions(duration, limit)\<close>. Beside the two arguments the
  model takes what the function reads from outside: the timestamp conversion and the
  integer parser of the scraper, the draw \<open>k\<close> of \<^verbatim>\<open>random.choice\<close>, the clock reading
  \<open>now\<close>, the store and the network. The handler of the outer \<^verbatim>\<open>try\<close> repeats the
  \<^verbatim>\<open>else\<close> branch; nothing in the modelled body raises (the scraper catches its own
  exceptions, and the store is taken not to fail), so it is not a branch of the model.
\<close>

definition generate_formatted_predictions ::
  "(int \<Rightarrow> string option) \<Rightarrow> (string \<rightharpoonup> int) \<Rightarrow> nat \<Rightarrow> string \<Rightarrow> string \<Rightarrow> int \<Rightarrow>
   database \<Rightarrow> net \<Rightarrow> view \<times> database \<times> net" where
  "generate_formatted_predictions fromtimestamp_ms int_of_str k now duration limit db n =
     (case get_wingo_results fromtimestamp_ms limit (norm_duration duration) n of
        (web_results, n1) \<Rightarrow>
     (case ws_get_next_period_id fromtimestamp_ms int_of_str duration n1 of
        (web_next_period, n2) \<Rightarrow>
     (case web_results of
        w # _ \<Rightarrow>
          (let next_prediction = alternate (w_result w);
               db' = snd (save_prediction now web_next_period duration next_prediction db)
           in (\<lparr>v_next_period = web_next_period, v_next_prediction = next_prediction,
                v_results = FromWeb web_results,
                v_past_predictions = get_predictions duration 10 db'\<rparr>, db', n2))
      | [] \<Rightarrow>
          (let next_period = get_next_period_id duration db;
               results = get_latest_results duration limit db;
               next_prediction =
                 (case results of
                    r # _ \<Rightarrow> alternate (r_result r)
                  | [] \<Rightarrow> random_choice k prediction_types);
               db' = snd (save_prediction now next_period duration next_prediction db)
           in (\<lparr>v_next_period = next_period, v_next_prediction = next_prediction,
                v_results = FromStore results,
                v_past_predictions = get_predictions duration 10 db'\<rparr>, db', n2)))))"

text \<open>
  A failed fetch: \<^verbatim>\<open>requests.get\<close> raised, the status is not 200, the body is not
  JSON, or it is JSON without the shape the scraper reads (not an object, no true
  \<^verbatim>\<open>success\<close>, no \<^verbatim>\<open>data\<close>).
\<close>

fun fetch_failed :: "http_result \<Rightarrow> bool" where
  "fetch_failed Raised = True"
| "fetch_failed (Response status_code body) =
     (status_code \<noteq> 200 \<or>
      (case body of
         None \<Rightarrow> True
       | Some (JObj data) \<Rightarrow>
           \<not> (py_truthy (dict_get data ''success'' JNull) \<and> map_of data ''data'' \<noteq> None)
       | Some _ \<Rightarrow> True))"

text \<open>
  The result of the most recent outcome the generator works from: the first remote
  result, or the first local result when the remote list is empty.
\<close>

definition last_known_result ::
  "(int \<Rightarrow> string option) \<Rightarrow> int \<Rightarrow> string \<Rightarrow> database \<Rightarrow> net \<Rightarrow> string option" where
  "last_known_result fromtimestamp_ms limit duration db n =
     (case fst (get_wingo_results fromtimestamp_ms limit (norm_duration duration) n) of
        w # _ \<Rightarrow> Some (w_result w)
      | [] \<Rightarrow>
          (case get_latest_results duration limit db of
             r # _ \<Rightarrow> Some (r_result r)
           | [] \<Rightarrow> None))"

text \<open>
  The opposite label, as the specification names it: GREEN for RED, RED for GREEN,
  SMALL for BIG, BIG for SMALL.
\<close>

definition opposite_label :: "string \<Rightarrow> string option" where
  "opposite_label s =
     (if s = ''RED'' then Some ''GREEN''
      else if s = ''GREEN'' then Some ''RED''
      else if s = ''BIG'' then Some ''SMALL''
      else if s = ''SMALL'' then Some ''BIG''
      else None)"

section \<open>The win-rate generator (prediction_logic.py)\<close>

text \<open>The counters of \<^verbatim>\<open>analyze_patterns\<close>, a dictionary with these eight keys.\<close>

record patterns =
  n_RED :: nat
  n_GREEN :: nat
  n_BIG :: nat
  n_SMALL :: nat
  alternating_color :: nat
  alternating_size :: nat
  streak_color :: nat
  streak_size :: nat

definition count_occurrence :: "result_row \<Rightarrow> patterns \<Rightarrow> patterns" where
  "count_occurrence result p =
     (let p = (if r_color result = ''RED'' then p\<lparr>n_RED := n_RED p + 1\<rparr>
               else p\<lparr>n_GREEN := n_GREEN p + 1\<rparr>)
      in if r_size result = ''BIG'' then p\<lparr>n_BIG := n_BIG p + 1\<rparr>
         else p\<lparr>n_SMALL := n_SMALL p + 1\<rparr>)"

text \<open>The second loop compares each result with the one before it in the list.\<close>

fun count_changes :: "result_row list \<Rightarrow> patterns \<Rightarrow> patterns" where
  "count_changes (prev # cur # rest) p =
     (let p = (if r_color cur \<noteq> r_color prev
               then p\<lparr>alternating_color := alternating_color p + 1\<rparr>
               else p\<lparr>streak_color := streak_color p + 1\<rparr>);
          p = (if r_size cur \<noteq> r_size prev
               then p\<lparr>alternating_size := alternating_size p + 1\<rparr>
               else p\<lparr>streak_size := streak_size p + 1\<rparr>)
      in count_changes (cur # rest) p)"
| "count_changes _ p = p"

definition analyze_patterns :: "result_row list \<Rightarrow> patterns" where
  "analyze_patterns results =
     count_changes results
       (fold count_occurrence results
          \<lparr>n_RED = 0, n_GREEN = 0, n_BIG = 0, n_SMALL = 0, alternating_color = 0,
           alternating_size = 0, streak_color = 0, streak_size = 0\<rparr>)"

text \<open>\<^verbatim>\<open>patterns[p_type]\<close> for the four labels the last loop reads.\<close>

definition pattern_count :: "patterns \<Rightarrow> string \<Rightarrow> nat" where
  "pattern_count p p_type =
     (if p_type = ''RED'' then n_RED p
      else if p_type = ''GREEN'' then n_GREEN p
      else if p_type = ''BIG'' then n_BIG p
      else n_SMALL p)"

text \<open>
  \<^verbatim>\<open>for p_type in prediction_types:
      if p_type in patterns and patterns[p_type] > highest_count:
          highest_count = patterns[p_type]; prediction = p_type\<close>
\<close>

fun most_common :: "patterns \<Rightarrow> string list \<Rightarrow> nat \<times> string \<Rightarrow> nat \<times> string" where
  "most_common p [] acc = acc"
| "most_common p (p_type # rest) (highest_count, prediction) =
     (if pattern_count p p_type > highest_count
      then most_common p rest (pattern_count p p_type, p_type)
      else most_common p rest (highest_count, prediction))"

text \<open>
  \<^verbatim>\<open>generate_prediction(duration)\<close>. \<open>should_be_winner\<close> is the outcome of
  \<^verbatim>\<open>should_win()\<close>, a random draw against a probability set from the stored win rates;
  \<open>k\<close> is the draw of \<^verbatim>\<open>random.choice\<close>. It returns the next period and the prediction;
  the model returns them with the new store.
\<close>

definition generate_prediction ::
  "bool \<Rightarrow> nat \<Rightarrow> string \<Rightarrow> string \<Rightarrow> database \<Rightarrow> (int \<times> string) \<times> database" where
  "generate_prediction should_be_winner k now duration db =
     (let recent_results = get_latest_results duration 10 db;
          next_period = get_next_period_id duration db;
          p = analyze_patterns recent_results;
          prediction =
            (if should_be_winner then
               (if streak_color p > alternating_color p then
                  (case recent_results of
                     r # _ \<Rightarrow> if r_color r = ''RED'' then ''RED'' else ''GREEN''
                   | [] \<Rightarrow> ''GREEN'')
                else if streak_size p > alternating_size p then
                  (case recent_results of
                     r # _ \<Rightarrow> if r_size r = ''BIG'' then ''BIG'' else ''SMALL''
                   | [] \<Rightarrow> ''SMALL'')
                else snd (most_common p prediction_types
                            (0, random_choice k prediction_types)))
             else random_choice k prediction_types)
      in ((next_period, prediction),
          snd (save_prediction now next_period duration prediction db)))"

section \<open>The scheduled update of the registered messages (bot.py)\<close>

text \<open>
  The loop of \<^verbatim>\<open>update_messages_for_duration\<close>:
  \<^verbatim>\<open>
  active_messages = utils.get_active_messages(duration)
  for chat_id, message_id in active_messages:
      try:
          if context.bot:
              await context.bot.edit_message_text(chat_id=chat_id, message_id=message_id, ...)
      except Exception as e:
          utils.unregister_active_message(duration, chat_id, message_id)
  \<close>
  \<^verbatim>\<open>get_active_messages\<close> returns the registry's own list object, not a copy, and
  \<^verbatim>\<open>unregister_active_message\<close> removes from that same object. A Python \<^verbatim>\<open>for\<close> over
  a list keeps an index into it and reads \<^verbatim>\<open>xs[i]\<close> while \<^verbatim>\<open>i < len(xs)\<close>, so the
  loop is modelled with the index \<open>i\<close> and the registry it reads the list from at every
  step. \<open>edit_ok\<close> says for which handles the edit succeeds, \<open>has_bot\<close> is
  \<^verbatim>\<open>context.bot\<close> being present, and \<open>attempted\<close> logs the edits attempted, in order.
\<close>

record sched =
  registry :: registry
  attempted :: "handle list"

function edit_loop ::
  "(handle \<Rightarrow> bool) \<Rightarrow> bool \<Rightarrow> string \<Rightarrow> nat \<Rightarrow> sched \<Rightarrow> py_error + sched" where
  "edit_loop edit_ok has_bot duration i s =
     (case registry s duration of
        None \<Rightarrow> Inl KeyError
      | Some xs \<Rightarrow>
          if i < length xs then
            (case xs ! i of (chat_id, message_id) \<Rightarrow>
               if \<not> has_bot then edit_loop edit_ok has_bot duration (Suc i) s
               else if edit_ok (chat_id, message_id) then
                 edit_loop edit_ok has_bot duration (Suc i)
                   (s\<lparr>attempted := attempted s @ [(chat_id, message_id)]\<rparr>)
               else
                 (case unregister_active_message duration chat_id message_id (registry s) of
                    Inl e \<Rightarrow> Inl e
                  | Inr reg' \<Rightarrow>
                      edit_loop edit_ok has_bot duration (Suc i)
                        (s\<lparr>registry := reg',
                           attempted := attempted s @ [(chat_id, message_id)]\<rparr>)))
          else Inr s)"
  by pat_completeness auto
termination
proof (relation "measure (\<lambda>(edit_ok, has_bot, duration, i, s).
          (case registry s duration of None \<Rightarrow> 0 | Some xs \<Rightarrow> length xs) - i)",
       goal_cases)
  case 1
  show ?case by simp
next
  case (2 edit_ok has_bot duration i s xs chat_id message_id)
  then show ?case by auto
next
  case (3 edit_ok has_bot duration i s xs chat_id message_id)
  then show ?case by auto
next
  case (4 edit_ok has_bot duration i s xs chat_id message_id reg')
  then show ?case
    by (auto simp: unregister_active_message_def length_remove1 split: if_splits)
qed

declare edit_loop.simps [simp del]

text \<open>
  The registry part of \<^verbatim>\<open>update_messages_for_duration\<close>: the read of the list
  (a \<^verbatim>\<open>KeyError\<close> for a duration the registry does not hold) and the loop from index
  0. The text pushed to the messages is produced before the loop and does not touch
  the registry.
\<close>

definition update_messages_for_duration ::
  "(handle \<Rightarrow> bool) \<Rightarrow> bool \<Rightarrow> string \<Rightarrow> registry \<Rightarrow> py_error + sched" where
  "update_messages_for_duration edit_ok has_bot duration active_messages =
     (case get_active_messages duration active_messages of
        Inl e \<Rightarrow> Inl e
      | Inr _ \<Rightarrow>
          edit_loop edit_ok has_bot duration 0
            \<lparr>registry = active_messages, attempted = []\<rparr>)"

section \<open>Properties\<close>

subsection \<open>The substring test\<close>

lemma py_in_iff: "py_in s t \<longleftrightarrow> (\<exists>p q. t = p @ s @ q)"
proof (induction t)
  case Nil
  then show ?case by auto
next
  case (Cons c cs)
  show ?case
  proof
    assume "py_in s (c # cs)"
    then consider "prefix s (c # cs)" | "py_in s cs" by auto
    then show "\<exists>p q. c # cs = p @ s @ q"
    proof cases
      case 1
      then obtain q where "c # cs = s @ q" by (auto simp: prefix_def)
      then have "c # cs = [] @ s @ q" by simp
      then show ?thesis by blast
    next
      case 2
      with Cons.IH obtain p q where "cs = p @ s @ q" by blast
      then have "c # cs = (c # p) @ s @ q" by simp
      then show ?thesis by blast
    qed
  next
    assume "\<exists>p q. c # cs = p @ s @ q"
    then obtain p q where pq: "c # cs = p @ s @ q" by blast
    show "py_in s (c # cs)"
    proof (cases p)
      case Nil
      with pq have "prefix s (c # cs)" by (simp add: prefix_def)
      then show ?thesis by simp
    next
      case (Cons a p')
      with pq have "cs = p' @ s @ q" by simp
      with Cons.IH have "py_in s cs" by blast
      then show ?thesis by simp
    qed
  qed
qed

text \<open>
  On the four labels the substring check in either direction is equality of the labels.
\<close>

lemma is_win_labels_iff_equal:
  "\<forall>prediction \<in> set prediction_types. \<forall>actual_result \<in> set prediction_types.
     is_win prediction actual_result \<longleftrightarrow> prediction = actual_result"
  by (simp add: prediction_types_def is_win_def)

subsection \<open>The retention cap of the registry\<close>

lemma py_slice_from_neg:
  "0 < k \<Longrightarrow> py_slice_from (- int k) xs = drop (length xs - k) xs"
proof -
  assume k: "0 < k"
  have "nat (max (int (length xs) + - int k) 0) = length xs - k"
    by (simp add: max_def nat_diff_distrib' del: of_nat_diff)
  with k show ?thesis by (simp add: py_slice_from_def Let_def)
qed

lemma register_active_message_appends:
  "active_messages duration = Some xs \<Longrightarrow>
   \<exists>reg'. register_active_message duration chat_id message_id active_messages = Inr reg'
     \<and> reg' duration = Some (xs @ [(chat_id, message_id)])"
  by (simp add: register_active_message_def)

text \<open>
  C6. The registry enforces a retention cap: after \<^verbatim>\<open>clear_old_messages\<close> a category
  holds at most 20 handles; when it held more than 20, exactly the last 20 (the most
  recently appended ones) are kept, in their original order; when it held 20 or fewer,
  its list is unchanged. No category is added or dropped.
\<close>

theorem clear_old_messages_retention_cap:
  assumes "active_messages duration = Some xs"
  shows "(\<exists>ys. clear_old_messages active_messages duration = Some ys
            \<and> length ys \<le> 20
            \<and> (20 < length xs \<longrightarrow>
                  length ys = 20 \<and> ys = drop (length xs - 20) xs
                  \<and> xs = take (length xs - 20) xs @ ys)
            \<and> (length xs \<le> 20 \<longrightarrow> ys = xs))
         \<and> dom (clear_old_messages active_messages) = dom active_messages"
proof
  have slice: "py_slice_from (- int max_messages) xs = drop (length xs - 20) xs"
    using py_slice_from_neg [of max_messages xs] by (simp add: max_messages_def)
  show "\<exists>ys. clear_old_messages active_messages duration = Some ys
           \<and> length ys \<le> 20
           \<and> (20 < length xs \<longrightarrow>
                 length ys = 20 \<and> ys = drop (length xs - 20) xs
                 \<and> xs = take (length xs - 20) xs @ ys)
           \<and> (length xs \<le> 20 \<longrightarrow> ys = xs)"
  proof (cases "20 < length xs")
    case True
    with assms slice
    have "clear_old_messages active_messages duration = Some (drop (length xs - 20) xs)"
      by (simp add: clear_old_messages_def max_messages_def)
    with True show ?thesis by simp
  next
    case False
    with assms have "clear_old_messages active_messages duration = Some xs"
      by (simp add: clear_old_messages_def max_messages_def)
    with False show ?thesis by simp
  qed
  show "dom (clear_old_messages active_messages) = dom active_messages"
    by (auto simp: clear_old_messages_def dom_def split: option.splits)
qed

theorem clear_old_messages_retention_cap_witness:
  "clear_old_messages
     [''30 SEC'' \<mapsto> map (\<lambda>i. (i, 100 + i)) [1..21], ''1 MIN'' \<mapsto> [(7, 8)]] ''30 SEC''
   = Some (map (\<lambda>i. (i, 100 + i)) [2..21])
   \<and> clear_old_messages
     [''30 SEC'' \<mapsto> map (\<lambda>i. (i, 100 + i)) [1..21], ''1 MIN'' \<mapsto> [(7, 8)]] ''1 MIN''
   = Some [(7, 8)]"
proof -
  let ?reg = "[''30 SEC'' \<mapsto> map (\<lambda>i. (i, 100 + i)) [1..21], ''1 MIN'' \<mapsto> [(7, 8)]]"
  have a: "?reg ''30 SEC'' = Some (map (\<lambda>i. (i, 100 + i)) [1..21])" by simp
  have b: "?reg ''1 MIN'' = Some [(7, 8)]" by simp
  have la: "length (map (\<lambda>i. (i, 100 + i)) [1..21]) = 21" by simp
  from clear_old_messages_retention_cap
         [of ?reg "''30 SEC''" "map (\<lambda>i. (i, 100 + i)) [1..21]"] a la
  have "clear_old_messages ?reg ''30 SEC''
          = Some (drop 1 (map (\<lambda>i::int. (i, 100 + i)) [1..21]))"
    by auto
  moreover have "drop 1 (map (\<lambda>i::int. (i, 100 + i)) [1..21])
                   = map (\<lambda>i. (i, 100 + i)) [2..21]"
    by (simp add: upto_rec1 [of 1 21] drop_map)
  moreover from clear_old_messages_retention_cap [of ?reg "''1 MIN''" "[(7, 8)]"] b
  have "clear_old_messages ?reg ''1 MIN'' = Some [(7, 8)]"
    by auto
  ultimately show ?thesis by simp
qed

subsection \<open>The scheduled update and a failed edit\<close>

text \<open>
  C5. Evaluation of the update loop on a registry with two handles for \<^verbatim>\<open>"30 SEC"\<close>,
  where the edit of the first handle fails and the edit of the second would succeed:
  the failed handle is removed, no error leaves the loop and the other category is
  untouched, but the edit of the second handle is never attempted. Removing the
  failed handle shifts the second one to the index the loop has already passed.
\<close>

theorem update_skips_handle_after_failed_edit:
  "map_sum id (\<lambda>s. (attempted s, registry s ''30 SEC'', registry s ''1 MIN''))
     (update_messages_for_duration (\<lambda>h. h \<noteq> (1, 10)) True ''30 SEC''
        [''30 SEC'' \<mapsto> [(1, 10), (2, 20)], ''1 MIN'' \<mapsto> [(3, 30)]])
   = Inr ([(1, 10)], Some [(2, 20)], Some [(3, 30)])"
  by (simp add: update_messages_for_duration_def get_active_messages_def
        edit_loop.simps unregister_active_message_def)

subsection \<open>Keys of inserted rows\<close>

lemma fold_max_ge: "(a::int) \<le> fold max xs a"
  by (induction xs arbitrary: a) (auto intro: order_trans [OF max.cobounded2])

lemma fold_max_mem_le: "(i::int) \<in> set xs \<Longrightarrow> i \<le> fold max xs a"
proof (induction xs arbitrary: a)
  case Nil
  then show ?case by simp
next
  case (Cons x xs)
  show ?case
  proof (cases "i = x")
    case True
    have "x \<le> max x a" by simp
    also have "\<dots> \<le> fold max xs (max x a)" by (rule fold_max_ge)
    finally show ?thesis using True by simp
  next
    case False
    with Cons.prems have "i \<in> set xs" by simp
    then show ?thesis using Cons.IH by simp
  qed
qed

lemma next_rowid_fresh: "i \<in> set ids \<Longrightarrow> i < next_rowid seq ids"
  using fold_max_mem_le [of i ids 0] by (simp add: next_rowid_def)

subsection \<open>The next period identifier\<close>

lemma select_max_period_id_None:
  "select_max_period_id duration db = None \<longleftrightarrow>
     (\<forall>r \<in> set (wingo_results db). r_duration r \<noteq> duration)"
proof -
  have "select_max_period_id duration db = None \<longleftrightarrow>
          filter (\<lambda>r. r_duration r = duration) (wingo_results db) = []"
    by (cases "filter (\<lambda>r. r_duration r = duration) (wingo_results db)")
       (simp_all add: select_max_period_id_def)
  then show ?thesis by (simp add: filter_empty_conv)
qed

lemma select_max_period_id_Max:
  "select_max_period_id duration db =
     (if \<forall>r \<in> set (wingo_results db). r_duration r \<noteq> duration then None
      else Some (Max (r_period_id ` {r \<in> set (wingo_results db). r_duration r = duration})))"
proof (cases "map r_period_id (filter (\<lambda>r. r_duration r = duration) (wingo_results db))")
  case Nil
  then have "select_max_period_id duration db = None"
    by (simp add: select_max_period_id_def)
  then show ?thesis by (simp add: select_max_period_id_None)
next
  case (Cons p ps)
  then have "r_period_id ` {r \<in> set (wingo_results db). r_duration r = duration} = set (p # ps)"
    by (metis list.set_map set_filter)
  moreover from Cons have sm: "select_max_period_id duration db = Some (fold max ps p)"
    by (simp add: select_max_period_id_def)
  moreover from sm have "\<not> (\<forall>r \<in> set (wingo_results db). r_duration r \<noteq> duration)"
    using select_max_period_id_None [of duration db] by simp
  ultimately show ?thesis
    by (simp add: Max.set_eq_fold del: set_simps)
qed

lemma select_max_period_id_upper:
  assumes "select_max_period_id duration db = Some m"
    and "r \<in> set (wingo_results db)" and "r_duration r = duration"
  shows "r_period_id r \<le> m"
proof -
  let ?S = "r_period_id ` {r \<in> set (wingo_results db). r_duration r = duration}"
  from assms have "m = Max ?S"
    by (auto simp: select_max_period_id_Max split: if_splits)
  moreover have "finite ?S" by simp
  moreover from assms have "r_period_id r \<in> ?S" by blast
  ultimately show ?thesis by (metis Max_ge)
qed

lemma get_next_period_id_above:
  assumes "r \<in> set (wingo_results db)" and "r_duration r = duration"
  shows "r_period_id r < get_next_period_id duration db"
proof (cases "select_max_period_id duration db")
  case None
  with assms show ?thesis by (auto simp: select_max_period_id_None)
next
  case (Some m)
  have "r_period_id r \<le> m" by (rule select_max_period_id_upper [OF Some assms])
  with Some show ?thesis by (simp add: get_next_period_id_def py_or_def)
qed


subsection \<open>Settling predictions\<close>

lemma map_p_id_set_result_where_id:
  "map p_id (set_result_where_id actual_result win pred_id rows) = map p_id rows"
  by (induction rows) (simp_all add: set_result_where_id_def)

lemma set_result_where_id_other:
  "k < length rows \<Longrightarrow> p_id (rows ! k) \<noteq> pred_id \<Longrightarrow>
   set_result_where_id actual_result win pred_id rows ! k = rows ! k"
  by (simp add: set_result_where_id_def)

lemma fold_set_result_ids:
  "map p_id (fold (\<lambda>(pred_id, prediction).
                     set_result_where_id actual_result (w prediction) pred_id) sel rows)
   = map p_id rows"
  by (induction sel arbitrary: rows) (auto simp: map_p_id_set_result_where_id)

lemma fold_set_result_other:
  assumes "k < length rows" and "p_id (rows ! k) \<notin> fst ` set sel"
  shows "fold (\<lambda>(pred_id, prediction).
                 set_result_where_id actual_result (w prediction) pred_id) sel rows ! k
         = rows ! k"
  using assms
proof (induction sel arbitrary: rows)
  case Nil
  then show ?case by simp
next
  case (Cons x sel)
  obtain pred_id prediction where x: "x = (pred_id, prediction)" by (cases x)
  let ?rows = "set_result_where_id actual_result (w prediction) pred_id rows"
  from Cons.prems x have ne: "p_id (rows ! k) \<noteq> pred_id" by auto
  with Cons.prems have same: "?rows ! k = rows ! k"
    by (simp add: set_result_where_id_other)
  have len: "k < length ?rows"
    using Cons.prems by (simp add: set_result_where_id_def)
  from Cons.prems same have "p_id (?rows ! k) \<notin> fst ` set sel" by auto
  from Cons.IH [OF len this] same x show ?case by simp
qed

lemma select_open_predictions_open:
  "x \<in> set (select_open_predictions period_id duration rows) \<Longrightarrow>
   \<exists>r \<in> set rows. p_id r = fst x \<and> p_prediction r = snd x \<and> p_result r = None
      \<and> p_period_id r = period_id \<and> p_duration r = duration"
  by (auto simp: select_open_predictions_def)

lemma update_predictions_ids:
  "map p_id (wingo_predictions (update_predictions period_id duration actual_result db))
   = map p_id (wingo_predictions db)"
  by (simp add: update_predictions_def fold_set_result_ids)

lemma update_predictions_results:
  "wingo_results (update_predictions period_id duration actual_result db) = wingo_results db"
  by (simp add: update_predictions_def)

lemma update_predictions_settled_kept:
  assumes d: "distinct (map p_id (wingo_predictions db))"
    and k: "k < length (wingo_predictions db)"
    and s: "p_result (wingo_predictions db ! k) \<noteq> None"
  shows "wingo_predictions (update_predictions period_id duration actual_result db) ! k
         = wingo_predictions db ! k"
proof -
  let ?P = "wingo_predictions db"
  let ?sel = "select_open_predictions period_id duration ?P"
  have "p_id (?P ! k) \<notin> fst ` set ?sel"
  proof
    assume "p_id (?P ! k) \<in> fst ` set ?sel"
    then obtain x where x: "x \<in> set ?sel" and fx: "fst x = p_id (?P ! k)" by auto
    from select_open_predictions_open [OF x]
    obtain r where r: "r \<in> set ?P" "p_id r = fst x" "p_result r = None" by blast
    from r(1) obtain j where j: "j < length ?P" "?P ! j = r" by (auto simp: in_set_conv_nth)
    from j r(2) fx have "map p_id ?P ! j = map p_id ?P ! k" using k by simp
    moreover from j(1) k have "j < length (map p_id ?P)" "k < length (map p_id ?P)"
      by simp_all
    ultimately have "j = k" using d nth_eq_iff_index_eq by blast
    with j(2) r(3) s show False by simp
  qed
  with k show ?thesis
    by (simp add: update_predictions_def fold_set_result_other)
qed


lemma fold_set_result_hit:
  assumes "distinct (map fst sel)" and "(i, pr) \<in> set sel"
    and "k < length rows" and "p_id (rows ! k) = i"
  shows "fold (\<lambda>(pred_id, prediction).
                 set_result_where_id actual_result (w prediction) pred_id) sel rows ! k
         = (rows ! k)\<lparr>p_result := Some actual_result, p_is_win := Some (w pr)\<rparr>"
  using assms
proof (induction sel arbitrary: rows)
  case Nil
  then show ?case by simp
next
  case (Cons x sel)
  obtain pred_id prediction where x: "x = (pred_id, prediction)" by (cases x)
  let ?rows = "set_result_where_id actual_result (w prediction) pred_id rows"
  have len: "k < length ?rows"
    using Cons.prems by (simp add: set_result_where_id_def)
  show ?case
  proof (cases "x = (i, pr)")
    case True
    with x have eq: "pred_id = i" "prediction = pr" by simp_all
    from Cons.prems eq
    have hit: "?rows ! k = (rows ! k)\<lparr>p_result := Some actual_result, p_is_win := Some (w pr)\<rparr>"
      by (simp add: set_result_where_id_def)
    from Cons.prems(1) True have "i \<notin> fst ` set sel" by auto
    with hit Cons.prems(4) have "p_id (?rows ! k) \<notin> fst ` set sel" by simp
    from fold_set_result_other [OF len this] hit x show ?thesis by simp
  next
    case False
    with Cons.prems(2) have mem: "(i, pr) \<in> set sel" by simp
    with Cons.prems(1) x have "pred_id \<noteq> i" by (auto simp: image_iff)
    with Cons.prems have same: "?rows ! k = rows ! k"
      by (simp add: set_result_where_id_def)
    from Cons.prems(1) have d: "distinct (map fst sel)" by simp
    from same Cons.prems(4) have "p_id (?rows ! k) = i" by simp
    from Cons.IH [OF d mem len this] same x show ?thesis by simp
  qed
qed

lemma select_open_predictions_distinct:
  "distinct (map p_id rows) \<Longrightarrow>
   distinct (map fst (select_open_predictions period_id duration rows))"
  by (induction rows) (auto simp: select_open_predictions_def)

lemma update_predictions_open_settled:
  assumes d: "distinct (map p_id (wingo_predictions db))"
    and k: "k < length (wingo_predictions db)"
    and m: "p_period_id (wingo_predictions db ! k) = period_id"
           "p_duration (wingo_predictions db ! k) = duration"
           "p_result (wingo_predictions db ! k) = None"
  shows "wingo_predictions (update_predictions period_id duration actual_result db) ! k
         = (wingo_predictions db ! k)
             \<lparr>p_result := Some actual_result,
              p_is_win := Some (is_win (p_prediction (wingo_predictions db ! k)) actual_result)\<rparr>"
proof -
  let ?P = "wingo_predictions db"
  let ?sel = "select_open_predictions period_id duration ?P"
  from k m have "(p_id (?P ! k), p_prediction (?P ! k)) \<in> set ?sel"
    by (force simp: select_open_predictions_def)
  from fold_set_result_hit [OF select_open_predictions_distinct [OF d] this k refl]
  show ?thesis by (simp add: update_predictions_def)
qed

text \<open>
  C10. Over the label alphabet RED, GREEN, BIG, SMALL the win test used when predictions
  are settled is equality: when \<^verbatim>\<open>update_predictions\<close> settles an open prediction of
  the period and duration whose label is one of the four, with an actual result that is
  one of the four, it records that result and marks the prediction a win exactly when
  the predicted label is the actual result. (The row identifiers are distinct, being
  the primary key.)
\<close>

theorem update_predictions_win_iff_equal:
  assumes "distinct (map p_id (wingo_predictions db))"
    and "k < length (wingo_predictions db)"
    and "p_period_id (wingo_predictions db ! k) = period_id"
    and "p_duration (wingo_predictions db ! k) = duration"
    and "p_result (wingo_predictions db ! k) = None"
    and "p_prediction (wingo_predictions db ! k) \<in> set prediction_types"
    and "actual_result \<in> set prediction_types"
  shows "wingo_predictions (update_predictions period_id duration actual_result db) ! k
         = (wingo_predictions db ! k)
             \<lparr>p_result := Some actual_result,
              p_is_win := Some (p_prediction (wingo_predictions db ! k) = actual_result)\<rparr>"
proof -
  from assms(6,7)
  have "is_win (p_prediction (wingo_predictions db ! k)) actual_result
          \<longleftrightarrow> p_prediction (wingo_predictions db ! k) = actual_result"
    using is_win_labels_iff_equal by blast
  with update_predictions_open_settled [OF assms(1-5), of actual_result]
  show ?thesis by simp
qed

theorem update_predictions_win_iff_equal_witness:
  "wingo_predictions (update_predictions 813 ''30 SEC'' ''BIG''
     \<lparr>wingo_results = [], wingo_results_seq = 0,
      wingo_predictions =
        [\<lparr>p_id = 1, p_period_id = 813, p_duration = ''30 SEC'', p_prediction = ''BIG'',
          p_result = None, p_is_win = None, p_timestamp = ''t1''\<rparr>,
         \<lparr>p_id = 2, p_period_id = 813, p_duration = ''1 MIN'', p_prediction = ''SMALL'',
          p_result = None, p_is_win = None, p_timestamp = ''t2''\<rparr>],
      wingo_predictions_seq = 2\<rparr>) ! 0
   = \<lparr>p_id = 1, p_period_id = 813, p_duration = ''30 SEC'', p_prediction = ''BIG'',
      p_result = Some ''BIG'', p_is_win = Some True, p_timestamp = ''t1''\<rparr>
   \<and> wingo_predictions (update_predictions 813 ''1 MIN'' ''BIG''
     \<lparr>wingo_results = [], wingo_results_seq = 0,
      wingo_predictions =
        [\<lparr>p_id = 1, p_period_id = 813, p_duration = ''30 SEC'', p_prediction = ''BIG'',
          p_result = None, p_is_win = None, p_timestamp = ''t1''\<rparr>,
         \<lparr>p_id = 2, p_period_id = 813, p_duration = ''1 MIN'', p_prediction = ''SMALL'',
          p_result = None, p_is_win = None, p_timestamp = ''t2''\<rparr>],
      wingo_predictions_seq = 2\<rparr>) ! 1
   = \<lparr>p_id = 2, p_period_id = 813, p_duration = ''1 MIN'', p_prediction = ''SMALL'',
      p_result = Some ''BIG'', p_is_win = Some False, p_timestamp = ''t2''\<rparr>"
  using update_predictions_win_iff_equal
      [where k = 0 and period_id = 813 and duration = "''30 SEC''" and actual_result = "''BIG''"
         and db = "\<lparr>wingo_results = [], wingo_results_seq = 0,
      wingo_predictions =
        [\<lparr>p_id = 1, p_period_id = 813, p_duration = ''30 SEC'', p_prediction = ''BIG'',
          p_result = None, p_is_win = None, p_timestamp = ''t1''\<rparr>,
         \<lparr>p_id = 2, p_period_id = 813, p_duration = ''1 MIN'', p_prediction = ''SMALL'',
          p_result = None, p_is_win = None, p_timestamp = ''t2''\<rparr>],
      wingo_predictions_seq = 2\<rparr>"]
    update_predictions_win_iff_equal
      [where k = 1 and period_id = 813 and duration = "''1 MIN''" and actual_result = "''BIG''"
         and db = "\<lparr>wingo_results = [], wingo_results_seq = 0,
      wingo_predictions =
        [\<lparr>p_id = 1, p_period_id = 813, p_duration = ''30 SEC'', p_prediction = ''BIG'',
          p_result = None, p_is_win = None, p_timestamp = ''t1''\<rparr>,
         \<lparr>p_id = 2, p_period_id = 813, p_duration = ''1 MIN'', p_prediction = ''SMALL'',
          p_result = None, p_is_win = None, p_timestamp = ''t2''\<rparr>],
      wingo_predictions_seq = 2\<rparr>"]
  by (simp add: prediction_types_def)

subsection \<open>Saving a prediction\<close>

lemma open_keys_repredict:
  "open_keys (map (\<lambda>r. if Q r then r\<lparr>p_prediction := a, p_timestamp := b\<rparr> else r) rows)
   = open_keys rows"
  by (induction rows) (simp_all add: open_keys_def prediction_key_def)

lemma prediction_keys_repredict:
  "map prediction_key
     (map (\<lambda>r. if Q r then r\<lparr>p_prediction := a, p_timestamp := b\<rparr> else r) rows)
   = map prediction_key rows"
  by (induction rows) (simp_all add: prediction_key_def)

lemma open_keys_subset: "set (open_keys rows) \<subseteq> prediction_key ` set rows"
  by (auto simp: open_keys_def)

lemma same_period_key:
  "same_period period_id duration r \<longleftrightarrow> prediction_key r = (period_id, duration)"
  by (auto simp: same_period_def prediction_key_def)

lemma find_same_period_Some:
  "find (same_period period_id duration) rows = Some e \<Longrightarrow>
   e \<in> set rows \<and> same_period period_id duration e"
  by (induction rows) (auto split: if_splits)


text \<open>
  C1. At most one open prediction per (period identifier, duration): a store with that
  property keeps it under \<^verbatim>\<open>save_prediction\<close> (and likewise "at most one row per
  pair"). When a row for the pair exists, no row is added: the rows of the pair get the
  new prediction and timestamp in place, all else is unchanged, and the id returned is
  that of an existing row of the pair. A row is inserted only when the pair has none;
  it is appended, open, under a fresh id, which is returned.
\<close>

theorem save_prediction_updates_or_inserts:
  "case save_prediction now period_id duration prediction db of
     (prediction_id, db') \<Rightarrow>
       (distinct (open_keys (wingo_predictions db))
          \<longrightarrow> distinct (open_keys (wingo_predictions db')))
     \<and> (distinct (map prediction_key (wingo_predictions db))
          \<longrightarrow> distinct (map prediction_key (wingo_predictions db')))
     \<and> ((\<exists>r \<in> set (wingo_predictions db). same_period period_id duration r) \<longrightarrow>
           length (wingo_predictions db') = length (wingo_predictions db)
         \<and> (\<exists>r \<in> set (wingo_predictions db).
               same_period period_id duration r \<and> p_id r = prediction_id)
         \<and> (\<forall>k < length (wingo_predictions db).
               wingo_predictions db' ! k =
                 (if same_period period_id duration (wingo_predictions db ! k)
                  then (wingo_predictions db ! k)
                         \<lparr>p_prediction := prediction, p_timestamp := now\<rparr>
                  else wingo_predictions db ! k)))
     \<and> ((\<forall>r \<in> set (wingo_predictions db). \<not> same_period period_id duration r) \<longrightarrow>
           wingo_predictions db' = wingo_predictions db @
             [\<lparr>p_id = prediction_id, p_period_id = period_id, p_duration = duration,
               p_prediction = prediction, p_result = None, p_is_win = None,
               p_timestamp = now\<rparr>]
         \<and> prediction_id \<notin> set (map p_id (wingo_predictions db)))"
proof (cases "find (same_period period_id duration) (wingo_predictions db)")
  case None
  then have no: "\<forall>r \<in> set (wingo_predictions db). \<not> same_period period_id duration r"
    by (auto simp: find_None_iff)
  then have k1: "(period_id, duration) \<notin> prediction_key ` set (wingo_predictions db)"
    by (auto simp: same_period_key)
  with open_keys_subset [of "wingo_predictions db"]
  have k2: "(period_id, duration) \<notin> set (open_keys (wingo_predictions db))" by blast
  have fresh: "next_rowid (wingo_predictions_seq db) (map p_id (wingo_predictions db))
                 \<notin> set (map p_id (wingo_predictions db))"
    using next_rowid_fresh [of _ "map p_id (wingo_predictions db)" "wingo_predictions_seq db"]
    by force
  from None no k1 k2 fresh show ?thesis
    by (simp add: save_prediction_def Let_def open_keys_def prediction_key_def)
next
  case (Some e)
  from find_same_period_Some [OF Some]
  have e: "e \<in> set (wingo_predictions db)" "same_period period_id duration e" by simp_all
  then have ex: "\<exists>r \<in> set (wingo_predictions db). same_period period_id duration r" by blast
  from Some e ex show ?thesis
    by (auto simp: save_prediction_def open_keys_repredict prediction_keys_repredict
             simp del: map_map)
qed


theorem save_prediction_updates_or_inserts_witness:
  "save_prediction ''t1'' 790 ''1 MIN'' ''RED''
     \<lparr>wingo_results = [], wingo_results_seq = 0,
      wingo_predictions =
        [\<lparr>p_id = 1, p_period_id = 790, p_duration = ''1 MIN'', p_prediction = ''GREEN'',
          p_result = None, p_is_win = None, p_timestamp = ''t0''\<rparr>],
      wingo_predictions_seq = 1\<rparr>
   = (1, \<lparr>wingo_results = [], wingo_results_seq = 0,
          wingo_predictions =
            [\<lparr>p_id = 1, p_period_id = 790, p_duration = ''1 MIN'', p_prediction = ''RED'',
              p_result = None, p_is_win = None, p_timestamp = ''t1''\<rparr>],
          wingo_predictions_seq = 1\<rparr>)
   \<and> save_prediction ''t1'' 791 ''1 MIN'' ''RED''
     \<lparr>wingo_results = [], wingo_results_seq = 0,
      wingo_predictions =
        [\<lparr>p_id = 1, p_period_id = 790, p_duration = ''1 MIN'', p_prediction = ''GREEN'',
          p_result = None, p_is_win = None, p_timestamp = ''t0''\<rparr>],
      wingo_predictions_seq = 1\<rparr>
   = (2, \<lparr>wingo_results = [], wingo_results_seq = 0,
          wingo_predictions =
            [\<lparr>p_id = 1, p_period_id = 790, p_duration = ''1 MIN'', p_prediction = ''GREEN'',
              p_result = None, p_is_win = None, p_timestamp = ''t0''\<rparr>,
             \<lparr>p_id = 2, p_period_id = 791, p_duration = ''1 MIN'', p_prediction = ''RED'',
              p_result = None, p_is_win = None, p_timestamp = ''t1''\<rparr>],
          wingo_predictions_seq = 2\<rparr>)"
  using save_prediction_updates_or_inserts [where now = "''t1''" and period_id = 790
     and duration = "''1 MIN''" and prediction = "''RED''" and db =
     "\<lparr>wingo_results = [], wingo_results_seq = 0,
      wingo_predictions =
        [\<lparr>p_id = 1, p_period_id = 790, p_duration = ''1 MIN'', p_prediction = ''GREEN'',
          p_result = None, p_is_win = None, p_timestamp = ''t0''\<rparr>],
      wingo_predictions_seq = 1\<rparr>"]
    save_prediction_updates_or_inserts [where now = "''t1''" and period_id = 791
     and duration = "''1 MIN''" and prediction = "''RED''" and db =
     "\<lparr>wingo_results = [], wingo_results_seq = 0,
      wingo_predictions =
        [\<lparr>p_id = 1, p_period_id = 790, p_duration = ''1 MIN'', p_prediction = ''GREEN'',
          p_result = None, p_is_win = None, p_timestamp = ''t0''\<rparr>],
      wingo_predictions_seq = 1\<rparr>"]
  by (simp add: save_prediction_def same_period_def next_rowid_def)

text \<open>
  C2. The observed result and the win flag of a prediction are written at most once.
  Row ids are the table's primary key, so they are distinct. \<^verbatim>\<open>update_predictions\<close>
  selects only rows whose result is \<^verbatim>\<open>NULL\<close>; every row whose result is already set
  is left exactly as it was, whatever the period, duration and actual result of the
  call; a selected row gets the actual result and the win flag of its own prediction,
  so it is settled from then on; ids are unchanged, so the same holds for every later
  call.
\<close>

theorem update_predictions_keeps_settled:
  assumes "distinct (map p_id (wingo_predictions db))"
  shows "map p_id (wingo_predictions (update_predictions period_id duration actual_result db))
           = map p_id (wingo_predictions db)
       \<and> (\<forall>x \<in> set (select_open_predictions period_id duration (wingo_predictions db)).
             \<exists>r \<in> set (wingo_predictions db). p_id r = fst x \<and> p_result r = None)
       \<and> (\<forall>k < length (wingo_predictions db).
             p_result (wingo_predictions db ! k) \<noteq> None \<longrightarrow>
               wingo_predictions (update_predictions period_id duration actual_result db) ! k
                 = wingo_predictions db ! k)
       \<and> (\<forall>k < length (wingo_predictions db).
             p_period_id (wingo_predictions db ! k) = period_id
             \<and> p_duration (wingo_predictions db ! k) = duration
             \<and> p_result (wingo_predictions db ! k) = None \<longrightarrow>
               p_result (wingo_predictions
                           (update_predictions period_id duration actual_result db) ! k)
                 = Some actual_result)"
proof (intro conjI allI impI ballI)
  show "map p_id (wingo_predictions (update_predictions period_id duration actual_result db))
          = map p_id (wingo_predictions db)"
    by (rule update_predictions_ids)
next
  fix x
  assume "x \<in> set (select_open_predictions period_id duration (wingo_predictions db))"
  from select_open_predictions_open [OF this]
  show "\<exists>r \<in> set (wingo_predictions db). p_id r = fst x \<and> p_result r = None" by blast
next
  fix k
  assume "k < length (wingo_predictions db)" "p_result (wingo_predictions db ! k) \<noteq> None"
  with assms
  show "wingo_predictions (update_predictions period_id duration actual_result db) ! k
          = wingo_predictions db ! k"
    by (rule update_predictions_settled_kept)
next
  fix k
  assume k: "k < length (wingo_predictions db)"
    and m: "p_period_id (wingo_predictions db ! k) = period_id
            \<and> p_duration (wingo_predictions db ! k) = duration
            \<and> p_result (wingo_predictions db ! k) = None"
  from m have "p_period_id (wingo_predictions db ! k) = period_id"
    "p_duration (wingo_predictions db ! k) = duration"
    "p_result (wingo_predictions db ! k) = None" by simp_all
  from update_predictions_open_settled [OF assms k this, of actual_result]
  show "p_result (wingo_predictions
                    (update_predictions period_id duration actual_result db) ! k)
          = Some actual_result"
    by simp
qed

theorem update_predictions_keeps_settled_witness:
  "distinct (map p_id
     [\<lparr>p_id = 1, p_period_id = 790, p_duration = ''1 MIN'', p_prediction = ''RED'',
       p_result = Some ''RED'', p_is_win = Some True, p_timestamp = ''t0''\<rparr>,
      \<lparr>p_id = 2, p_period_id = 790, p_duration = ''1 MIN'', p_prediction = ''BIG'',
       p_result = None, p_is_win = None, p_timestamp = ''t1''\<rparr>])
   \<and> wingo_predictions (update_predictions 790 ''1 MIN'' ''GREEN''
       \<lparr>wingo_results = [], wingo_results_seq = 0,
        wingo_predictions =
          [\<lparr>p_id = 1, p_period_id = 790, p_duration = ''1 MIN'', p_prediction = ''RED'',
            p_result = Some ''RED'', p_is_win = Some True, p_timestamp = ''t0''\<rparr>,
           \<lparr>p_id = 2, p_period_id = 790, p_duration = ''1 MIN'', p_prediction = ''BIG'',
            p_result = None, p_is_win = None, p_timestamp = ''t1''\<rparr>],
        wingo_predictions_seq = 2\<rparr>)
     = [\<lparr>p_id = 1, p_period_id = 790, p_duration = ''1 MIN'', p_prediction = ''RED'',
         p_result = Some ''RED'', p_is_win = Some True, p_timestamp = ''t0''\<rparr>,
        \<lparr>p_id = 2, p_period_id = 790, p_duration = ''1 MIN'', p_prediction = ''BIG'',
         p_result = Some ''GREEN'', p_is_win = Some False, p_timestamp = ''t1''\<rparr>]"
  using update_predictions_keeps_settled [where period_id = 790 and duration = "''1 MIN''"
       and actual_result = "''GREEN''" and db =
       "\<lparr>wingo_results = [], wingo_results_seq = 0,
        wingo_predictions =
          [\<lparr>p_id = 1, p_period_id = 790, p_duration = ''1 MIN'', p_prediction = ''RED'',
            p_result = Some ''RED'', p_is_win = Some True, p_timestamp = ''t0''\<rparr>,
           \<lparr>p_id = 2, p_period_id = 790, p_duration = ''1 MIN'', p_prediction = ''BIG'',
            p_result = None, p_is_win = None, p_timestamp = ''t1''\<rparr>],
        wingo_predictions_seq = 2\<rparr>"]
  by (simp add: update_predictions_def select_open_predictions_def set_result_where_id_def
        is_win_def)

subsection \<open>Period identifiers of new results\<close>

lemma get_next_period_id_cases:
  "get_next_period_id duration db =
     (case select_max_period_id duration db of
        None \<Rightarrow> 790
      | Some m \<Rightarrow> if m = 0 then 790 else m + 1)"
  by (simp add: get_next_period_id_def py_or_def split: option.splits)

lemma add_new_result_rows:
  "wingo_results (snd (add_new_result now duration result color size' db)) =
     wingo_results db @
       [\<lparr>r_id = next_rowid (wingo_results_seq db) (map r_id (wingo_results db)),
         r_period_id = get_next_period_id duration db, r_duration = duration,
         r_result = result, r_color = color, r_size = size', r_timestamp = now\<rparr>]"
  by (simp add: add_new_result_def Let_def update_predictions_results)

text \<open>
  C3. Period identifiers are monotonic per duration: in every state of the results
  table, \<^verbatim>\<open>add_new_result\<close> appends the new outcome under the identifier it returns,
  which is the value of \<^verbatim>\<open>get_next_period_id\<close> and is strictly greater than every
  identifier already recorded for that duration. It is 790 when the duration has no
  row, and the maximum recorded identifier plus one whenever that maximum is not 0.
\<close>

theorem add_new_result_period_id_monotonic:
  "case add_new_result now duration result color size' db of
     (period_id, db') \<Rightarrow>
       (\<forall>r \<in> set (wingo_results db). r_duration r = duration \<longrightarrow> r_period_id r < period_id)
     \<and> (\<exists>row. wingo_results db' = wingo_results db @ [row]
            \<and> r_period_id row = period_id \<and> r_duration row = duration
            \<and> r_result row = result \<and> r_color row = color \<and> r_size row = size')
     \<and> period_id = get_next_period_id duration db
     \<and> ((\<forall>r \<in> set (wingo_results db). r_duration r \<noteq> duration) \<longrightarrow> period_id = 790)
     \<and> ((\<exists>r \<in> set (wingo_results db). r_duration r = duration)
          \<and> Max (r_period_id ` {r \<in> set (wingo_results db). r_duration r = duration}) \<noteq> 0
          \<longrightarrow> period_id =
                Max (r_period_id ` {r \<in> set (wingo_results db). r_duration r = duration}) + 1)"
proof -
  have fst_eq: "fst (add_new_result now duration result color size' db)
                  = get_next_period_id duration db"
    by (simp add: add_new_result_def Let_def)
  have above: "\<forall>r \<in> set (wingo_results db).
                 r_duration r = duration \<longrightarrow> r_period_id r < get_next_period_id duration db"
    using get_next_period_id_above by blast
  have empty: "(\<forall>r \<in> set (wingo_results db). r_duration r \<noteq> duration)
                 \<longrightarrow> get_next_period_id duration db = 790"
    by (simp add: get_next_period_id_cases select_max_period_id_Max)
  have nonzero: "(\<exists>r \<in> set (wingo_results db). r_duration r = duration)
      \<and> Max (r_period_id ` {r \<in> set (wingo_results db). r_duration r = duration}) \<noteq> 0
      \<longrightarrow> get_next_period_id duration db =
            Max (r_period_id ` {r \<in> set (wingo_results db). r_duration r = duration}) + 1"
    by (auto simp: get_next_period_id_cases select_max_period_id_Max)
  from fst_eq above empty nonzero add_new_result_rows [of now duration result color size' db]
  show ?thesis by (auto simp: case_prod_beta)
qed

theorem add_new_result_period_id_monotonic_witness:
  "add_new_result ''t2'' ''30 SEC'' ''RED'' ''RED'' ''SMALL''
     \<lparr>wingo_results =
        [\<lparr>r_id = 1, r_period_id = 801, r_duration = ''30 SEC'', r_result = ''RED'',
          r_color = ''RED'', r_size = ''BIG'', r_timestamp = ''t0''\<rparr>,
         \<lparr>r_id = 2, r_period_id = 802, r_duration = ''30 SEC'', r_result = ''GREEN'',
          r_color = ''GREEN'', r_size = ''SMALL'', r_timestamp = ''t0''\<rparr>,
         \<lparr>r_id = 3, r_period_id = 900, r_duration = ''1 MIN'', r_result = ''BIG'',
          r_color = ''GREEN'', r_size = ''BIG'', r_timestamp = ''t0''\<rparr>],
      wingo_results_seq = 3, wingo_predictions = [], wingo_predictions_seq = 0\<rparr>
   = (803,
      \<lparr>wingo_results =
        [\<lparr>r_id = 1, r_period_id = 801, r_duration = ''30 SEC'', r_result = ''RED'',
          r_color = ''RED'', r_size = ''BIG'', r_timestamp = ''t0''\<rparr>,
         \<lparr>r_id = 2, r_period_id = 802, r_duration = ''30 SEC'', r_result = ''GREEN'',
          r_color = ''GREEN'', r_size = ''SMALL'', r_timestamp = ''t0''\<rparr>,
         \<lparr>r_id = 3, r_period_id = 900, r_duration = ''1 MIN'', r_result = ''BIG'',
          r_color = ''GREEN'', r_size = ''BIG'', r_timestamp = ''t0''\<rparr>,
         \<lparr>r_id = 4, r_period_id = 803, r_duration = ''30 SEC'', r_result = ''RED'',
          r_color = ''RED'', r_size = ''SMALL'', r_timestamp = ''t2''\<rparr>],
      wingo_results_seq = 4, wingo_predictions = [], wingo_predictions_seq = 0\<rparr>)"
  using add_new_result_period_id_monotonic [where now = "''t2''" and duration = "''30 SEC''"
    and result = "''RED''" and color = "''RED''" and size' = "''SMALL''" and db =
     "\<lparr>wingo_results =
        [\<lparr>r_id = 1, r_period_id = 801, r_duration = ''30 SEC'', r_result = ''RED'',
          r_color = ''RED'', r_size = ''BIG'', r_timestamp = ''t0''\<rparr>,
         \<lparr>r_id = 2, r_period_id = 802, r_duration = ''30 SEC'', r_result = ''GREEN'',
          r_color = ''GREEN'', r_size = ''SMALL'', r_timestamp = ''t0''\<rparr>,
         \<lparr>r_id = 3, r_period_id = 900, r_duration = ''1 MIN'', r_result = ''BIG'',
          r_color = ''GREEN'', r_size = ''BIG'', r_timestamp = ''t0''\<rparr>],
      wingo_results_seq = 3, wingo_predictions = [], wingo_predictions_seq = 0\<rparr>"]
  by (simp add: add_new_result_def get_next_period_id_def select_max_period_id_def py_or_def
        next_rowid_def update_predictions_def select_open_predictions_def)

subsection \<open>The stores the program produces\<close>

lemma seed_database_period_ids:
  "r \<in> set (wingo_results (seed_database clock wins)) \<Longrightarrow> 790 \<le> r_period_id r"
  by (auto simp: seed_database_def seed_patterns_def)

lemma save_prediction_results:
  "wingo_results (snd (save_prediction now period_id duration prediction db)) = wingo_results db"
  by (simp add: save_prediction_def Let_def split: option.splits)

lemma get_next_period_id_from_790:
  assumes "\<forall>r \<in> set (wingo_results db). 790 \<le> r_period_id r"
  shows "790 \<le> get_next_period_id duration db"
proof (cases "select_max_period_id duration db")
  case None
  then show ?thesis by (simp add: get_next_period_id_cases)
next
  case (Some m)
  let ?S = "r_period_id ` {r \<in> set (wingo_results db). r_duration r = duration}"
  from Some have ne: "?S \<noteq> {}" and m: "m = Max ?S"
    by (auto simp: select_max_period_id_Max split: if_splits)
  have "finite ?S" by simp
  from Max_in [OF this ne] m have "m \<in> ?S" by simp
  then obtain r where "r \<in> set (wingo_results db)" "r_period_id r = m" by auto
  with assms Some show ?thesis by (auto simp: get_next_period_id_cases)
qed

lemma stores_period_ids:
  "db \<in> stores \<Longrightarrow> r \<in> set (wingo_results db) \<Longrightarrow> 790 \<le> r_period_id r"
proof (induction arbitrary: r rule: stores.induct)
  case (seeded clock wins)
  then show ?case by (rule seed_database_period_ids)
next
  case (result_added db now duration result color size')
  from result_added.IH have "\<forall>r \<in> set (wingo_results db). 790 \<le> r_period_id r" by blast
  from get_next_period_id_from_790 [OF this, of duration] result_added show ?case
    by (auto simp: add_new_result_rows)
next
  case (prediction_saved db now period_id duration prediction)
  then show ?case by (simp add: save_prediction_results)
next
  case (predictions_updated db period_id duration actual_result)
  then show ?case by (simp add: update_predictions_results)
qed


lemma stores_no_zero_period_id:
  "db \<in> stores \<Longrightarrow>
   \<forall>r \<in> set (wingo_results db). r_duration r = duration \<longrightarrow> r_period_id r \<noteq> 0"
  using stores_period_ids by fastforce

text \<open>
  C9. The next-period lookup has a fixed empty-store default: on a results table in
  which no row of the duration has the period identifier 0 (every store the program
  produces is one, \<open>stores_no_zero_period_id\<close>: its identifiers start at 790),
  \<^verbatim>\<open>get_next_period_id\<close> returns 790 when the table has no row for the duration, and
  one more than the maximum period identifier recorded for the duration otherwise.
\<close>

theorem get_next_period_id_default_or_successor:
  assumes "\<forall>r \<in> set (wingo_results db). r_duration r = duration \<longrightarrow> r_period_id r \<noteq> 0"
  shows "get_next_period_id duration db =
           (if \<forall>r \<in> set (wingo_results db). r_duration r \<noteq> duration then 790
            else Max (r_period_id ` {r \<in> set (wingo_results db). r_duration r = duration}) + 1)"
proof (cases "\<forall>r \<in> set (wingo_results db). r_duration r \<noteq> duration")
  case True
  then show ?thesis by (simp add: get_next_period_id_cases select_max_period_id_Max)
next
  case False
  let ?S = "r_period_id ` {r \<in> set (wingo_results db). r_duration r = duration}"
  from False have ne: "?S \<noteq> {}" by auto
  have "finite ?S" by simp
  from Max_in [OF this ne] assms have "Max ?S \<noteq> 0" by auto
  with False show ?thesis by (auto simp: get_next_period_id_cases select_max_period_id_Max)
qed

theorem get_next_period_id_default_or_successor_witness:
  "list_all (\<lambda>r. r_period_id r \<noteq> 0) (wingo_results (seed_database (\<lambda>i. ''t0'') (\<lambda>i. True)))
   \<and> get_next_period_id ''30 SEC'' (seed_database (\<lambda>i. ''t0'') (\<lambda>i. True)) = 813
   \<and> get_next_period_id ''1 MIN'' (seed_database (\<lambda>i. ''t0'') (\<lambda>i. True)) = 811
   \<and> get_next_period_id ''5 MIN'' (seed_database (\<lambda>i. ''t0'') (\<lambda>i. True)) = 790"
  using get_next_period_id_default_or_successor
      [where db = "seed_database (\<lambda>i. ''t0'') (\<lambda>i. True)" and duration = "''30 SEC''"]
    get_next_period_id_default_or_successor
      [where db = "seed_database (\<lambda>i. ''t0'') (\<lambda>i. True)" and duration = "''1 MIN''"]
    get_next_period_id_default_or_successor
      [where db = "seed_database (\<lambda>i. ''t0'') (\<lambda>i. True)" and duration = "''5 MIN''"]
  by (simp add: seed_database_def seed_patterns_def get_next_period_id_def
        select_max_period_id_def py_or_def)

text \<open>
  The condition on the identifier 0 is needed: on a results table whose only row for
  \<^verbatim>\<open>"1 MIN"\<close> has period identifier 0 the maximum is 0, which Python's \<^verbatim>\<open>or\<close> treats
  like the \<^verbatim>\<open>None\<close> of an empty table, so the function returns 790. No store the
  program produces has such a row.
\<close>

lemma get_next_period_id_zero_max:
  "select_max_period_id ''1 MIN''
     \<lparr>wingo_results =
        [\<lparr>r_id = 1, r_period_id = 0, r_duration = ''1 MIN'', r_result = ''BIG'',
          r_color = ''GREEN'', r_size = ''BIG'', r_timestamp = ''t0''\<rparr>],
      wingo_results_seq = 1, wingo_predictions = [], wingo_predictions_seq = 0\<rparr> = Some 0
   \<and> get_next_period_id ''1 MIN''
     \<lparr>wingo_results =
        [\<lparr>r_id = 1, r_period_id = 0, r_duration = ''1 MIN'', r_result = ''BIG'',
          r_color = ''GREEN'', r_size = ''BIG'', r_timestamp = ''t0''\<rparr>],
      wingo_results_seq = 1, wingo_predictions = [], wingo_predictions_seq = 0\<rparr> = 790"
  by (simp add: get_next_period_id_def select_max_period_id_def py_or_def)

subsection \<open>The request of the remote fetch\<close>

lemma wingo_request_eq:
  "wingo_request limit duration =
     \<lparr>req_url = API_URL,
      req_params = [(''id'', JInt (if duration = ''30SEC'' then 4 else 3)),
                    (''count'', JInt limit), (''language'', JStr ''en'')],
      req_headers = HEADERS, req_timeout = 10\<rparr>"
  by (simp add: wingo_request_def DEFAULT_PARAMS_def)

text \<open>
  C7. Every call of \<^verbatim>\<open>get_wingo_results\<close> sends exactly one GET, to the same endpoint,
  with the same headers, the same timeout and the same \<^verbatim>\<open>language\<close> parameter; the
  \<^verbatim>\<open>count\<close> parameter is the requested limit and the \<^verbatim>\<open>id\<close> parameter is 4 for the
  duration \<^verbatim>\<open>"30SEC"\<close> and 3 for any other.
\<close>

theorem get_wingo_results_single_get:
  "sent (snd (get_wingo_results fromtimestamp_ms limit duration n))
     = sent n @ [wingo_request limit duration]
   \<and> wingo_request limit duration =
       \<lparr>req_url = API_URL,
        req_params = [(''id'', JInt (if duration = ''30SEC'' then 4 else 3)),
                      (''count'', JInt limit), (''language'', JStr ''en'')],
        req_headers = HEADERS, req_timeout = 10\<rparr>"
  by (simp add: get_wingo_results_def requests_get_def wingo_request_eq)

text \<open>
  The query parameters are not the same for every call: they differ between two
  limits and between the two durations.
\<close>

theorem wingo_request_params_vary:
  "req_params (wingo_request 10 ''1MIN'') \<noteq> req_params (wingo_request 5 ''1MIN'')
   \<and> req_params (wingo_request 10 ''1MIN'') \<noteq> req_params (wingo_request 10 ''30SEC'')"
  by (simp add: wingo_request_eq)

subsection \<open>Remote failures\<close>

lemma get_wingo_results_fst:
  "fst (get_wingo_results fromtimestamp_ms limit duration n) =
     (case wingo_try fromtimestamp_ms (next_response n) of None \<Rightarrow> [] | Some rs \<Rightarrow> rs)"
  by (simp add: get_wingo_results_def requests_get_def)

lemma wingo_try_failed:
  "fetch_failed response \<Longrightarrow>
   wingo_try fromtimestamp_ms response = None \<or> wingo_try fromtimestamp_ms response = Some []"
  by (cases response) (auto split: option.splits json.splits)

lemma get_wingo_results_failed:
  assumes "fetch_failed (next_response n) \<or> wingo_try fromtimestamp_ms (next_response n) = None"
  shows "fst (get_wingo_results fromtimestamp_ms limit duration n) = []"
  using assms wingo_try_failed [of "next_response n" fromtimestamp_ms]
  by (auto simp: get_wingo_results_fst)

lemma generate_formatted_predictions_fallback:
  assumes "fst (get_wingo_results fromtimestamp_ms limit (norm_duration duration) n) = []"
  shows "case generate_formatted_predictions fromtimestamp_ms int_of_str k now duration
                limit db n of
           (v, db', n') \<Rightarrow>
             v_next_period v = get_next_period_id duration db
           \<and> v_results v = FromStore (get_latest_results duration limit db)
           \<and> v_past_predictions v = get_predictions duration 10 db'
           \<and> db' = snd (save_prediction now (get_next_period_id duration db) duration
                          (v_next_prediction v) db)"
proof -
  obtain n1 where g: "get_wingo_results fromtimestamp_ms limit (norm_duration duration) n
                        = ([], n1)"
    using assms by (cases "get_wingo_results fromtimestamp_ms limit (norm_duration duration) n")
      simp
  obtain p n2 where "ws_get_next_period_id fromtimestamp_ms int_of_str duration n1 = (p, n2)"
    by (cases "ws_get_next_period_id fromtimestamp_ms int_of_str duration n1")
  with g show ?thesis
    by (simp add: generate_formatted_predictions_def Let_def)
qed

lemma ws_get_next_period_id_default:
  "fst (get_wingo_results fromtimestamp_ms 1 (norm_duration duration) n) = [] \<Longrightarrow>
   fst (ws_get_next_period_id fromtimestamp_ms int_of_str duration n) = 1000"
  by (cases "get_wingo_results fromtimestamp_ms 1 (norm_duration duration) n")
    (simp add: ws_get_next_period_id_def)

lemma generate_formatted_predictions_remote:
  assumes "fst (get_wingo_results fromtimestamp_ms limit (norm_duration duration) n) \<noteq> []"
  shows "case generate_formatted_predictions fromtimestamp_ms int_of_str k now duration
                limit db n of
           (v, db', n') \<Rightarrow>
             v_next_period v =
               fst (ws_get_next_period_id fromtimestamp_ms int_of_str duration
                      (snd (get_wingo_results fromtimestamp_ms limit (norm_duration duration) n)))
           \<and> v_results v =
               FromWeb (fst (get_wingo_results fromtimestamp_ms limit (norm_duration duration) n))
           \<and> v_past_predictions v = get_predictions duration 10 db'
           \<and> db' = snd (save_prediction now (v_next_period v) duration
                          (v_next_prediction v) db)"
proof -
  obtain w ws n1 where g: "get_wingo_results fromtimestamp_ms limit (norm_duration duration) n
                             = (w # ws, n1)"
    using assms
    by (cases "get_wingo_results fromtimestamp_ms limit (norm_duration duration) n")
      (auto simp: neq_Nil_conv)
  obtain p n2 where "ws_get_next_period_id fromtimestamp_ms int_of_str duration n1 = (p, n2)"
    by (cases "ws_get_next_period_id fromtimestamp_ms int_of_str duration n1")
  with g show ?thesis
    by (simp add: generate_formatted_predictions_def Let_def)
qed

text \<open>
  C4. Remote failures are never fatal. Whatever the remote side does,
  \<^verbatim>\<open>get_wingo_results\<close> returns a list, and when the fetch fails (the GET raises, the
  status is not 200, the body is malformed, or anything raises while the body is read)
  that list is empty. \<^verbatim>\<open>generate_formatted_predictions\<close> fetches twice: the results,
  then the latest period through \<^verbatim>\<open>web_scraper.get_next_period_id\<close>. When the results
  fetch returns the empty list, it takes the next period identifier from
  \<^verbatim>\<open>database.get_next_period_id\<close> and its results from \<^verbatim>\<open>database.get_latest_results\<close>,
  lists the past predictions of the local store, and saves its prediction there. When
  the results fetch returns outcomes and the fetch of the latest period fails, it keeps
  the remote results and takes the scraper's default, 1000, as the next period
  identifier.
\<close>

theorem generate_formatted_predictions_on_remote_failure:
  "(fetch_failed (next_response n) \<or> wingo_try fromtimestamp_ms (next_response n) = None
      \<longrightarrow> fst (get_wingo_results fromtimestamp_ms limit (norm_duration duration) n) = [])
   \<and> (case generate_formatted_predictions fromtimestamp_ms int_of_str k now duration
              limit db n of
         (v, db', n') \<Rightarrow>
           (fst (get_wingo_results fromtimestamp_ms limit (norm_duration duration) n) = []
              \<longrightarrow> v_next_period v = get_next_period_id duration db
                \<and> v_results v = FromStore (get_latest_results duration limit db)
                \<and> v_past_predictions v = get_predictions duration 10 db'
                \<and> db' = snd (save_prediction now (get_next_period_id duration db) duration
                               (v_next_prediction v) db))
         \<and> (fst (get_wingo_results fromtimestamp_ms limit (norm_duration duration) n) \<noteq> []
            \<and> (fetch_failed (next_response
                   (snd (get_wingo_results fromtimestamp_ms limit (norm_duration duration) n)))
               \<or> wingo_try fromtimestamp_ms (next_response
                   (snd (get_wingo_results fromtimestamp_ms limit (norm_duration duration) n)))
                  = None)
              \<longrightarrow> v_next_period v = 1000
                \<and> v_results v =
                    FromWeb (fst (get_wingo_results fromtimestamp_ms limit
                                    (norm_duration duration) n))
                \<and> v_past_predictions v = get_predictions duration 10 db'
                \<and> db' = snd (save_prediction now 1000 duration (v_next_prediction v) db)))"
proof -
  let ?g = "get_wingo_results fromtimestamp_ms limit (norm_duration duration) n"
  let ?r = "generate_formatted_predictions fromtimestamp_ms int_of_str k now duration limit db n"
  obtain v db' n' where r: "?r = (v, db', n')" by (cases ?r)
  have first: "fetch_failed (next_response n)
                 \<or> wingo_try fromtimestamp_ms (next_response n) = None \<longrightarrow> fst ?g = []"
    using get_wingo_results_failed by blast
  have local_store: "fst ?g = [] \<longrightarrow>
      v_next_period v = get_next_period_id duration db
    \<and> v_results v = FromStore (get_latest_results duration limit db)
    \<and> v_past_predictions v = get_predictions duration 10 db'
    \<and> db' = snd (save_prediction now (get_next_period_id duration db) duration
                   (v_next_prediction v) db)"
    using generate_formatted_predictions_fallback
            [where fromtimestamp_ms = fromtimestamp_ms and limit = limit
               and duration = duration and n = n and int_of_str = int_of_str and k = k
               and now = now and db = db] r
    by simp
  have remote: "fst ?g \<noteq> []
      \<and> (fetch_failed (next_response (snd ?g))
         \<or> wingo_try fromtimestamp_ms (next_response (snd ?g)) = None) \<longrightarrow>
      v_next_period v = 1000
    \<and> v_results v = FromWeb (fst ?g)
    \<and> v_past_predictions v = get_predictions duration 10 db'
    \<and> db' = snd (save_prediction now 1000 duration (v_next_prediction v) db)"
  proof
    assume a: "fst ?g \<noteq> []
      \<and> (fetch_failed (next_response (snd ?g))
         \<or> wingo_try fromtimestamp_ms (next_response (snd ?g)) = None)"
    then have "fst (get_wingo_results fromtimestamp_ms 1 (norm_duration duration) (snd ?g)) = []"
      using get_wingo_results_failed by blast
    then have "fst (ws_get_next_period_id fromtimestamp_ms int_of_str duration (snd ?g)) = 1000"
      by (rule ws_get_next_period_id_default)
    with a generate_formatted_predictions_remote
           [where fromtimestamp_ms = fromtimestamp_ms and limit = limit
              and duration = duration and n = n and int_of_str = int_of_str and k = k
              and now = now and db = db] r
    show "v_next_period v = 1000
      \<and> v_results v = FromWeb (fst ?g)
      \<and> v_past_predictions v = get_predictions duration 10 db'
      \<and> db' = snd (save_prediction now 1000 duration (v_next_prediction v) db)"
      by simp
  qed
  from first local_store remote r show ?thesis by simp
qed

lemmas eval_defs =
  generate_formatted_predictions_def get_wingo_results_def requests_get_def
  next_response_def ws_get_next_period_id_def get_next_period_id_def
  select_max_period_id_def py_or_def get_latest_results_def sql_limit_def alternate_def
  save_prediction_def next_rowid_def get_predictions_def same_period_def norm_duration_def
  wingo_request_def DEFAULT_PARAMS_def dict_get_def Let_def

theorem generate_formatted_predictions_on_remote_failure_witness:
  "fetch_failed (next_response \<lparr>pending = [Response 503 None, Raised], sent = []\<rparr>)
   \<and> fst (generate_formatted_predictions (\<lambda>ms. Some ''ts'') (\<lambda>s. None) 0 ''now'' ''1 MIN'' 10
       \<lparr>wingo_results =
          [\<lparr>r_id = 1, r_period_id = 790, r_duration = ''1 MIN'', r_result = ''RED'',
            r_color = ''RED'', r_size = ''BIG'', r_timestamp = ''t0''\<rparr>],
        wingo_results_seq = 1, wingo_predictions = [], wingo_predictions_seq = 0\<rparr>
       \<lparr>pending = [Response 503 None, Raised], sent = []\<rparr>)
     = \<lparr>v_next_period = 791, v_next_prediction = ''GREEN'',
        v_results = FromStore
          [\<lparr>r_id = 1, r_period_id = 790, r_duration = ''1 MIN'', r_result = ''RED'',
            r_color = ''RED'', r_size = ''BIG'', r_timestamp = ''t0''\<rparr>],
        v_past_predictions =
          [\<lparr>p_id = 1, p_period_id = 791, p_duration = ''1 MIN'', p_prediction = ''GREEN'',
            p_result = None, p_is_win = None, p_timestamp = ''now''\<rparr>]\<rparr>
   \<and> fetch_failed (next_response
         (snd (get_wingo_results (\<lambda>ms. Some ''ts'') 10 (norm_duration ''1 MIN'')
            \<lparr>pending =
          [Response 200 (Some (JObj [(''success'', JBool True),
             (''data'', JList [JObj [(''issueNumber'', JStr ''41''), (''colorType'', JInt 2),
                                     (''sizeType'', JInt 1), (''createdTime'', JInt 0)]])])),
           Response 503 None],
         sent = []\<rparr>)))
   \<and> fst (generate_formatted_predictions (\<lambda>ms. Some ''ts'') (\<lambda>s. None) 0 ''now'' ''1 MIN'' 10
       \<lparr>wingo_results =
          [\<lparr>r_id = 1, r_period_id = 790, r_duration = ''1 MIN'', r_result = ''RED'',
            r_color = ''RED'', r_size = ''BIG'', r_timestamp = ''t0''\<rparr>],
        wingo_results_seq = 1, wingo_predictions = [], wingo_predictions_seq = 0\<rparr>
       \<lparr>pending =
          [Response 200 (Some (JObj [(''success'', JBool True),
             (''data'', JList [JObj [(''issueNumber'', JStr ''41''), (''colorType'', JInt 2),
                                     (''sizeType'', JInt 1), (''createdTime'', JInt 0)]])])),
           Response 503 None],
         sent = []\<rparr>)
     = \<lparr>v_next_period = 1000, v_next_prediction = ''SMALL'',
        v_results = FromWeb
          [\<lparr>w_period_id = JStr ''41'', w_result = ''BIG'', w_color = ''GREEN'',
               w_size = ''BIG'', w_timestamp = ''ts''\<rparr>],
        v_past_predictions =
          [\<lparr>p_id = 1, p_period_id = 1000, p_duration = ''1 MIN'', p_prediction = ''SMALL'',
            p_result = None, p_is_win = None, p_timestamp = ''now''\<rparr>]\<rparr>"
  using generate_formatted_predictions_on_remote_failure
    [where n = "\<lparr>pending = [Response 503 None, Raised], sent = []\<rparr>"
       and fromtimestamp_ms = "\<lambda>ms. Some ''ts''" and int_of_str = "\<lambda>s. None" and k = 0
       and now = "''now''" and duration = "''1 MIN''" and limit = 10 and db =
       "\<lparr>wingo_results =
          [\<lparr>r_id = 1, r_period_id = 790, r_duration = ''1 MIN'', r_result = ''RED'',
            r_color = ''RED'', r_size = ''BIG'', r_timestamp = ''t0''\<rparr>],
        wingo_results_seq = 1, wingo_predictions = [], wingo_predictions_seq = 0\<rparr>"]
    generate_formatted_predictions_on_remote_failure
    [where n = "\<lparr>pending =
          [Response 200 (Some (JObj [(''success'', JBool True),
             (''data'', JList [JObj [(''issueNumber'', JStr ''41''), (''colorType'', JInt 2),
                                     (''sizeType'', JInt 1), (''createdTime'', JInt 0)]])])),
           Response 503 None],
         sent = []\<rparr>"
       and fromtimestamp_ms = "\<lambda>ms. Some ''ts''" and int_of_str = "\<lambda>s. None" and k = 0
       and now = "''now''" and duration = "''1 MIN''" and limit = 10 and db =
       "\<lparr>wingo_results =
          [\<lparr>r_id = 1, r_period_id = 790, r_duration = ''1 MIN'', r_result = ''RED'',
            r_color = ''RED'', r_size = ''BIG'', r_timestamp = ''t0''\<rparr>],
        wingo_results_seq = 1, wingo_predictions = [], wingo_predictions_seq = 0\<rparr>"]
  by (simp add: eval_defs)

text \<open>
  A failure of the second fetch alone does not lead to the local store. On the seeded
  store, with the results fetch answered and the fetch of the latest period answered by
  a 503, the scraper returns the empty list for the failed fetch, and the generator
  shows the remote results under the next period identifier 1000, while the local
  store's next period identifier for the duration is 811.
\<close>

theorem period_fetch_failure_keeps_remote_results:
  "fetch_failed (Response 503 None)
   \<and> get_wingo_results (\<lambda>ms. Some ''ts'') 1 ''1MIN'' \<lparr>pending = [Response 503 None], sent = []\<rparr>
     = ([], \<lparr>pending = [], sent = [wingo_request 1 ''1MIN'']\<rparr>)
   \<and> v_next_period (fst (generate_formatted_predictions (\<lambda>ms. Some ''ts'')
         (\<lambda>s. if s = ''41'' then Some 41 else None) 0 ''now'' ''1 MIN'' 10
         (seed_database (\<lambda>i. ''t0'') (\<lambda>i. True))
         \<lparr>pending =
          [Response 200 (Some (JObj [(''success'', JBool True),
             (''data'', JList [JObj [(''issueNumber'', JStr ''41''), (''colorType'', JInt 2),
                                     (''sizeType'', JInt 1), (''createdTime'', JInt 0)]])])),
           Response 503 None],
         sent = []\<rparr>)) = 1000
   \<and> v_results (fst (generate_formatted_predictions (\<lambda>ms. Some ''ts'')
         (\<lambda>s. if s = ''41'' then Some 41 else None) 0 ''now'' ''1 MIN'' 10
         (seed_database (\<lambda>i. ''t0'') (\<lambda>i. True))
         \<lparr>pending =
          [Response 200 (Some (JObj [(''success'', JBool True),
             (''data'', JList [JObj [(''issueNumber'', JStr ''41''), (''colorType'', JInt 2),
                                     (''sizeType'', JInt 1), (''createdTime'', JInt 0)]])])),
           Response 503 None],
         sent = []\<rparr>))
     = FromWeb
         [\<lparr>w_period_id = JStr ''41'', w_result = ''BIG'', w_color = ''GREEN'',
               w_size = ''BIG'', w_timestamp = ''ts''\<rparr>]
   \<and> get_next_period_id ''1 MIN'' (seed_database (\<lambda>i. ''t0'') (\<lambda>i. True)) = 811"
proof -
  let ?f = "\<lambda>ms::int. Some ''ts''"
  let ?n = "\<lparr>pending =
          [Response 200 (Some (JObj [(''success'', JBool True),
             (''data'', JList [JObj [(''issueNumber'', JStr ''41''), (''colorType'', JInt 2),
                                     (''sizeType'', JInt 1), (''createdTime'', JInt 0)]])])),
           Response 503 None],
         sent = []\<rparr>"
  let ?g = "get_wingo_results ?f 10 (norm_duration ''1 MIN'') ?n"
  let ?db = "seed_database (\<lambda>i. ''t0'') (\<lambda>i. True)"
  let ?r = "generate_formatted_predictions ?f (\<lambda>s. if s = ''41'' then Some 41 else None)
              0 ''now'' ''1 MIN'' 10 ?db ?n"
  have g: "fst ?g = [\<lparr>w_period_id = JStr ''41'', w_result = ''BIG'', w_color = ''GREEN'',
               w_size = ''BIG'', w_timestamp = ''ts''\<rparr>]"
    by (simp add: get_wingo_results_def requests_get_def next_response_def norm_duration_def
          dict_get_def Let_def)
  have "fst (get_wingo_results ?f 1 (norm_duration ''1 MIN'') (snd ?g)) = []"
    by (simp add: get_wingo_results_def requests_get_def next_response_def norm_duration_def)
  then have p: "fst (ws_get_next_period_id ?f (\<lambda>s. if s = ''41'' then Some 41 else None)
                       ''1 MIN'' (snd ?g)) = 1000"
    by (rule ws_get_next_period_id_default)
  from g have "fst ?g \<noteq> []" by simp
  from generate_formatted_predictions_remote [OF this] p g
  have r: "v_next_period (fst ?r) = 1000 \<and> v_results (fst ?r) = FromWeb [\<lparr>w_period_id = JStr ''41'', w_result = ''BIG'', w_color = ''GREEN'',
               w_size = ''BIG'', w_timestamp = ''ts''\<rparr>]"
    by (simp add: case_prod_beta)
  have failed: "fetch_failed (Response 503 None)" by simp
  have empty: "get_wingo_results ?f 1 ''1MIN'' \<lparr>pending = [Response 503 None], sent = []\<rparr>
     = ([], \<lparr>pending = [], sent = [wingo_request 1 ''1MIN'']\<rparr>)"
    by (simp add: get_wingo_results_def requests_get_def next_response_def)
  have local_next: "get_next_period_id ''1 MIN'' ?db = 811"
    by (simp add: seed_database_def seed_patterns_def get_next_period_id_def
          select_max_period_id_def py_or_def)
  from failed empty r local_next show ?thesis by simp
qed

subsection \<open>The prediction strategy\<close>

lemma alternate_opposite:
  "last_result \<in> set prediction_types \<Longrightarrow>
   opposite_label last_result = Some (alternate last_result)"
  by (auto simp: prediction_types_def opposite_label_def alternate_def)

lemma save_prediction_stored:
  "\<exists>row \<in> set (wingo_predictions (snd (save_prediction now period_id duration prediction db))).
     p_period_id row = period_id \<and> p_duration row = duration \<and> p_prediction row = prediction"
proof (cases "find (same_period period_id duration) (wingo_predictions db)")
  case None
  then show ?thesis by (simp add: save_prediction_def Let_def)
next
  case (Some e)
  from find_same_period_Some [OF Some]
  have e: "e \<in> set (wingo_predictions db)" "same_period period_id duration e" by simp_all
  let ?e = "e\<lparr>p_prediction := prediction, p_timestamp := now\<rparr>"
  from e have "?e \<in> set (wingo_predictions
                            (snd (save_prediction now period_id duration prediction db)))"
    using Some by (force simp: save_prediction_def)
  moreover from e(2) have "p_period_id ?e = period_id \<and> p_duration ?e = duration
                            \<and> p_prediction ?e = prediction"
    by (simp add: same_period_def)
  ultimately show ?thesis by blast
qed

lemma get_latest_results_head:
  assumes "get_latest_results duration limit db = r # rs"
  shows "r \<in> set (wingo_results db) \<and> r_duration r = duration
       \<and> (\<forall>r' \<in> set (wingo_results db).
             r_duration r' = duration \<longrightarrow> r_period_id r' \<le> r_period_id r)"
proof -
  let ?xs = "filter (\<lambda>r. r_duration r = duration) (wingo_results db)"
  let ?ys = "sort_key (\<lambda>r. - r_period_id r) ?xs"
  from assms have "sql_limit limit ?ys = r # rs" by (simp add: get_latest_results_def)
  then obtain ys' where ys: "?ys = r # ys'"
    by (cases ?ys) (auto simp: sql_limit_def take_Cons' split: if_splits)
  have "r \<in> set ?ys" using ys by simp
  then have mem: "r \<in> set ?xs" by simp
  have "sorted (map (\<lambda>r. - r_period_id r) ?ys)" by (rule sorted_sort_key)
  with ys have "\<forall>y \<in> set ?ys. - r_period_id r \<le> - r_period_id y" by auto
  then have "\<forall>y \<in> set ?xs. r_period_id y \<le> r_period_id r" by simp
  with mem show ?thesis by auto
qed

text \<open>
  C8. In \<^verbatim>\<open>fixed_prediction.generate_formatted_predictions\<close>, whenever the most recent
  outcome the generator works from (the first remote result, or the first local result
  when the remote list is empty) has one of the four labels as its result, the
  prediction for the next period is the opposite label: GREEN for RED, RED for GREEN,
  SMALL for BIG, BIG for SMALL; and that prediction is what the store holds for the
  next period afterwards.
\<close>

theorem generate_formatted_predictions_picks_opposite:
  "case generate_formatted_predictions fromtimestamp_ms int_of_str k now duration limit db n of
     (v, db', n') \<Rightarrow>
       (\<forall>last_result \<in> set prediction_types.
          last_known_result fromtimestamp_ms limit duration db n = Some last_result \<longrightarrow>
            opposite_label last_result = Some (v_next_prediction v))
     \<and> (\<exists>row \<in> set (wingo_predictions db').
           p_period_id row = v_next_period v \<and> p_duration row = duration
           \<and> p_prediction row = v_next_prediction v)"
proof -
  obtain web n1 where g: "get_wingo_results fromtimestamp_ms limit (norm_duration duration) n
                            = (web, n1)"
    by (cases "get_wingo_results fromtimestamp_ms limit (norm_duration duration) n")
  obtain p n2 where w: "ws_get_next_period_id fromtimestamp_ms int_of_str duration n1 = (p, n2)"
    by (cases "ws_get_next_period_id fromtimestamp_ms int_of_str duration n1")
  show ?thesis
  proof (cases web)
    case (Cons w ws)
    with g w show ?thesis
      using save_prediction_stored [of now p duration "alternate (w_result w)" db]
      by (auto simp: generate_formatted_predictions_def Let_def last_known_result_def
            alternate_opposite)
  next
    case Nil
    show ?thesis
    proof (cases "get_latest_results duration limit db")
      case (Cons r rs)
      with Nil g w show ?thesis
        using save_prediction_stored [of now "get_next_period_id duration db" duration
                "alternate (r_result r)" db]
        by (auto simp: generate_formatted_predictions_def Let_def last_known_result_def
              alternate_opposite)
    next
      case Nil2: Nil
      with Nil g w show ?thesis
        using save_prediction_stored [of now "get_next_period_id duration db" duration
                "random_choice k prediction_types" db]
        by (auto simp: generate_formatted_predictions_def Let_def last_known_result_def)
    qed
  qed
qed


theorem generate_formatted_predictions_picks_opposite_witness:
  "''BIG'' \<in> set prediction_types
   \<and> last_known_result (\<lambda>ms. Some ''ts'') 10 ''1 MIN''
       \<lparr>wingo_results = [], wingo_results_seq = 0,
        wingo_predictions = [], wingo_predictions_seq = 0\<rparr>
       \<lparr>pending =
          [Response 200 (Some (JObj [(''success'', JBool True),
             (''data'', JList [JObj [(''issueNumber'', JStr ''41''), (''colorType'', JInt 2),
                                     (''sizeType'', JInt 1), (''createdTime'', JInt 0)]])])),
           Response 200 (Some (JObj [(''success'', JBool True),
             (''data'', JList [JObj [(''issueNumber'', JStr ''41''), (''colorType'', JInt 2),
                                     (''sizeType'', JInt 1), (''createdTime'', JInt 0)]])]))],
        sent = []\<rparr> = Some ''BIG''
   \<and> opposite_label ''BIG'' = Some ''SMALL''
   \<and> (case generate_formatted_predictions (\<lambda>ms. Some ''ts'')
             (\<lambda>s. if s = ''41'' then Some 41 else None) 0 ''now'' ''1 MIN'' 10
        \<lparr>wingo_results = [], wingo_results_seq = 0,
         wingo_predictions = [], wingo_predictions_seq = 0\<rparr>
        \<lparr>pending =
          [Response 200 (Some (JObj [(''success'', JBool True),
             (''data'', JList [JObj [(''issueNumber'', JStr ''41''), (''colorType'', JInt 2),
                                     (''sizeType'', JInt 1), (''createdTime'', JInt 0)]])])),
           Response 200 (Some (JObj [(''success'', JBool True),
             (''data'', JList [JObj [(''issueNumber'', JStr ''41''), (''colorType'', JInt 2),
                                     (''sizeType'', JInt 1), (''createdTime'', JInt 0)]])]))],
         sent = []\<rparr> of
        (v, db', n') \<Rightarrow>
          v_next_period v = 42 \<and> v_next_prediction v = ''SMALL''
          \<and> wingo_predictions db' =
              [\<lparr>p_id = 1, p_period_id = 42, p_duration = ''1 MIN'', p_prediction = ''SMALL'',
                p_result = None, p_is_win = None, p_timestamp = ''now''\<rparr>])"
  using generate_formatted_predictions_picks_opposite
    [where fromtimestamp_ms = "\<lambda>ms. Some ''ts''"
       and int_of_str = "\<lambda>s. if s = ''41'' then Some 41 else None"
       and k = 0 and now = "''now''" and duration = "''1 MIN''" and limit = 10
       and db = "\<lparr>wingo_results = [], wingo_results_seq = 0,
                  wingo_predictions = [], wingo_predictions_seq = 0\<rparr>"
       and n = "\<lparr>pending =
          [Response 200 (Some (JObj [(''success'', JBool True),
             (''data'', JList [JObj [(''issueNumber'', JStr ''41''), (''colorType'', JInt 2),
                                     (''sizeType'', JInt 1), (''createdTime'', JInt 0)]])])),
           Response 200 (Some (JObj [(''success'', JBool True),
             (''data'', JList [JObj [(''issueNumber'', JStr ''41''), (''colorType'', JInt 2),
                                     (''sizeType'', JInt 1), (''createdTime'', JInt 0)]])]))],
         sent = []\<rparr>"]
  by (simp add: eval_defs last_known_result_def opposite_label_def prediction_types_def)

text \<open>
  The win-rate generator of \<^verbatim>\<open>prediction_logic.py\<close> follows another strategy. With one
  recorded outcome, RED, and a prediction that is meant to win, neither the streak of
  colours nor the streak of sizes is longer than the alternation (all four counters are
  0), so the most common label is taken: the prediction is RED, the label of the last
  outcome itself, not its opposite.
\<close>

theorem generate_prediction_repeats_last_result:
  "map r_result (get_latest_results ''1 MIN'' 10
     \<lparr>wingo_results =
        [\<lparr>r_id = 1, r_period_id = 790, r_duration = ''1 MIN'', r_result = ''RED'',
          r_color = ''RED'', r_size = ''BIG'', r_timestamp = ''t0''\<rparr>],
      wingo_results_seq = 1, wingo_predictions = [], wingo_predictions_seq = 0\<rparr>) = [''RED'']
   \<and> fst (generate_prediction True 0 ''now'' ''1 MIN''
     \<lparr>wingo_results =
        [\<lparr>r_id = 1, r_period_id = 790, r_duration = ''1 MIN'', r_result = ''RED'',
          r_color = ''RED'', r_size = ''BIG'', r_timestamp = ''t0''\<rparr>],
      wingo_results_seq = 1, wingo_predictions = [], wingo_predictions_seq = 0\<rparr>)
     = (791, ''RED'')
   \<and> opposite_label ''RED'' = Some ''GREEN''"
  by (simp add: generate_prediction_def analyze_patterns_def count_occurrence_def
        pattern_count_def prediction_types_def
        random_choice_def get_latest_results_def sql_limit_def get_next_period_id_def
        select_max_period_id_def py_or_def opposite_label_def Let_def)

end
